theory Spec2Isabelle
  imports Complex_Main "HOL-Library.Sublist"
begin

section \<open>JavaScript values used by the detection tools\<close>

text \<open>
  A JavaScript string is a list of code units. It is modelled by an Isabelle string, so by
  the strings whose code units are below 256; \<open>length\<close> is then the \<open>.length\<close> of
  the source. A JavaScript number is an IEEE double: a finite value, one of the two
  infinities, or NaN. Only comparisons against constants are made on numbers, and those
  are the comparisons of the real values, false on NaN.
\<close>

datatype jsnumber = NaN | NegInfinity | Finite real | PosInfinity

fun js_lt :: "jsnumber \<Rightarrow> real \<Rightarrow> bool" where
  "js_lt NaN b = False"
| "js_lt NegInfinity b = True"
| "js_lt (Finite a) b = (a < b)"
| "js_lt PosInfinity b = False"

fun js_gt :: "jsnumber \<Rightarrow> real \<Rightarrow> bool" where
  "js_gt NaN b = False"
| "js_gt NegInfinity b = False"
| "js_gt (Finite a) b = (a > b)"
| "js_gt PosInfinity b = True"

fun js_le :: "jsnumber \<Rightarrow> real \<Rightarrow> bool" where
  "js_le NaN b = False"
| "js_le NegInfinity b = True"
| "js_le (Finite a) b = (a \<le> b)"
| "js_le PosInfinity b = False"

fun isNaN :: "jsnumber \<Rightarrow> bool" where
  "isNaN NaN = True"
| "isNaN NegInfinity = False"
| "isNaN (Finite a) = False"
| "isNaN PosInfinity = False"

text \<open>The white space of \<open>String.prototype.trim\<close>, of \<open>\s\<close> and of \<open>parseInt\<close>,
  among the code units below 256: TAB, LF, VT, FF, CR, SPACE and NBSP.\<close>

definition isWhiteSpace :: "char \<Rightarrow> bool" where
  "isWhiteSpace c =
     (c \<in> set [CHR 0x09, CHR 0x0A, CHR 0x0B, CHR 0x0C, CHR 0x0D, CHR 0x20, CHR 0xA0])"

definition trim :: "string \<Rightarrow> string" where
  "trim s = rev (dropWhile isWhiteSpace (rev (dropWhile isWhiteSpace s)))"

text \<open>\<open>s.includes(p)\<close>: \<open>p\<close> occurs in \<open>s\<close> as a contiguous run of code units.\<close>

fun str_includes :: "string \<Rightarrow> string \<Rightarrow> bool" where
  "str_includes [] p = (p = [])"
| "str_includes (c # cs) p = (prefix p (c # cs) \<or> str_includes cs p)"

text \<open>\<open>xs.join(sep)\<close>.\<close>

fun join :: "string \<Rightarrow> string list \<Rightarrow> string" where
  "join sep [] = []"
| "join sep [x] = x"
| "join sep (x # y # ys) = x @ sep @ join sep (y # ys)"

text \<open>The decimal rendering of a natural number in a template literal.\<close>

definition digitChar :: "nat \<Rightarrow> char" where
  "digitChar d =
     (if d = 0 then CHR ''0'' else if d = 1 then CHR ''1'' else if d = 2 then CHR ''2''
      else if d = 3 then CHR ''3'' else if d = 4 then CHR ''4'' else if d = 5 then CHR ''5''
      else if d = 6 then CHR ''6'' else if d = 7 then CHR ''7'' else if d = 8 then CHR ''8''
      else CHR ''9'')"

function showNat :: "nat \<Rightarrow> string" where
  "showNat n = (if n < 10 then [digitChar n] else showNat (n div 10) @ [digitChar (n mod 10)])"
  by pat_completeness auto
termination
  by (relation "measure id") auto

declare showNat.simps [simp del]

section \<open>Errors and validation results (types/zellij.ts, utils/validator.ts)\<close>

text \<open>The two error classes the detection tools meet, each with its message.\<close>

datatype error = ValidationError string | ZellijError string

record ValidationResult =
  valid :: bool
  errors :: "string list"
  sanitized :: string

text \<open>
  \<open>Validator.validateString(value, fieldName, maxLength)\<close>. The argument is typed
  \<open>string\<close>, so \<open>!value\<close> holds for the empty string only.
\<close>

definition validateString :: "string \<Rightarrow> string \<Rightarrow> nat \<Rightarrow> ValidationResult" where
  "validateString val fieldName maxLength =
     (let errs =
        (if val = [] then [fieldName @ '' is required and must be a string'']
         else
           (if length val > maxLength
            then [fieldName @ '' is too long (max '' @ showNat maxLength @ '' characters)'']
            else [])
           @ (if length (trim val) = 0 then [fieldName @ '' cannot be empty''] else []))
      in \<lparr>valid = (length errs = 0), errors = errs, sanitized = trim val\<rparr>)"

text \<open>
  The path check shared by \<open>watchPipe\<close>, \<open>watchFile\<close> and \<open>pipeWithTimeout\<close>:
  \<open>!path || path.includes('..') || !path.match(/^[/\w\-\.]+$/)\<close>.
\<close>

definition wordChar :: "char \<Rightarrow> bool" where
  "wordChar c =
     (c \<in> set ''abcdefghijklmnopqrstuvwxyzABCDEFGHIJKLMNOPQRSTUVWXYZ0123456789_'')"

definition pathChar :: "char \<Rightarrow> bool" where
  "pathChar c = (c = CHR ''/'' \<or> wordChar c \<or> c = CHR ''-'' \<or> c = CHR ''.'')"

definition matchPathRegex :: "string \<Rightarrow> bool" where
  "matchPathRegex p = (p \<noteq> [] \<and> list_all pathChar p)"

definition invalidPath :: "string \<Rightarrow> bool" where
  "invalidPath p = (p = [] \<or> str_includes p ''..'' \<or> \<not> matchPathRegex p)"

text \<open>
  The loop over the requested patterns in \<open>watchPipe\<close> and \<open>watchFile\<close>: each is
  checked by \<open>validateString(pattern, 'pattern', 256)\<close>, the first invalid one throws,
  and the sanitized (trimmed) patterns are collected in order.
\<close>

fun validatePatterns :: "string list \<Rightarrow> error + string list" where
  "validatePatterns [] = Inr []"
| "validatePatterns (pattern # rest) =
     (let patternValidation = validateString pattern ''pattern'' 256 in
      if \<not> valid patternValidation
      then Inl (ValidationError (''Invalid pattern: '' @ join '', '' (errors patternValidation)))
      else (case validatePatterns rest of
              Inl e \<Rightarrow> Inl e
            | Inr validatedPatterns \<Rightarrow> Inr (sanitized patternValidation # validatedPatterns)))"

text \<open>
  The scan of the observed content: \<open>for (const pattern of validatedPatterns)
  if (content.includes(pattern)) { ...resolve(pattern)...; return; }\<close>.
\<close>

fun scanPatterns :: "string list \<Rightarrow> string \<Rightarrow> string option" where
  "scanPatterns [] content = None"
| "scanPatterns (pattern # rest) content =
     (if str_includes content pattern then Some pattern else scanPatterns rest content)"

section \<open>The watchers (tools/detection.ts)\<close>

text \<open>
  The text of a \<open>ToolResponse\<close>, one constructor for each template of the source, with
  the values the template interpolates.
\<close>

datatype ToolResponse =
    PipeWatchTimeout jsnumber
      \<comment> \<open>\<open>Pipe watch timeout after ${timeoutMs}ms. No matching patterns found.\<close>\<close>
  | PipePatternFound string string
      \<comment> \<open>\<open>Pattern found: "${pattern}" in pipe ${pipePath}\<close>\<close>
  | PipeEOF string bool
      \<comment> \<open>\<open>EOF reached on pipe ${pipePath}\<close>, then \<open>with pattern match\<close> when
          \<open>found\<close>, else \<open>No patterns specified or found.\<close>\<close>
  | FileWatchTimeout jsnumber string
      \<comment> \<open>\<open>File watch timeout after ${timeoutMs}ms: ${filePath}\<close>\<close>
  | FilePatternFound string string
      \<comment> \<open>\<open>Pattern "${pattern}" found in file: ${filePath}\<close>\<close>
  | FileDetected string
      \<comment> \<open>\<open>File detected: ${filePath}\<close>\<close>
  | NamedPipeCreated string string string
      \<comment> \<open>\<open>Named pipe created: ${pipePath} with mode ${mode}\<close> and the output\<close>
  | ProcessStatus jsnumber "string list"
      \<comment> \<open>\<open>Process ${pidNum} status:\<close> with the fields PID, PPID, State, Command\<close>
  | ProcessNotFound jsnumber
      \<comment> \<open>\<open>Process ${pidNum} not found or has exited\<close>\<close>
  | ProcessNotFoundOrError jsnumber string
      \<comment> \<open>\<open>Process ${pidNum} not found or error checking status: ${message}\<close>\<close>
  | WrapperCreated string string string jsnumber
      \<comment> \<open>\<open>LLM wrapper created: ${wrapperPath}\<close> with the status file, the marker
          and the timeout\<close>
  | DetectionCleanup nat
      \<comment> \<open>\<open>Detection cleanup completed. Stopped ${cleaned} watchers/processes ...\<close>\<close>

text \<open>
  What \<open>existsSync\<close> and \<open>readFileSync\<close> find at a path: nothing, an entry that
  cannot be read (\<open>readFileSync\<close> throws), or a file with its content. The file
  system belongs to the environment, so every operation that reads it takes a snapshot.
\<close>

datatype fnode = Missing | Unreadable | Content string

datatype watchKind = PipeWatch | FileWatch

text \<open>
  The closure of one call of \<open>watchPipe\<close> or \<open>watchFile\<close>: its arguments after
  validation, the variables \<open>buffer\<close> and \<open>found\<close>, and the promise it returned
  (\<open>None\<close> while pending). A promise is settled once: \<open>resolve\<close> and \<open>reject\<close> on
  a settled promise do nothing.
\<close>

record watch =
  kind :: watchKind
  w_path :: string
  validatedPatterns :: "string list"
  timeoutMs :: jsnumber
  buffer :: string
  found :: bool
  promise :: "(error + ToolResponse) option"

text \<open>
  The state of the module and of the runtime around it: the keys of the static map
  \<open>watchers\<close> and of the static map \<open>processes\<close> in insertion order, the
  listeners installed by \<open>fs.watchFile\<close> (path and owning call), the pending
  \<open>setTimeout\<close> timers and the open read streams (by owning call), the processes
  sent SIGTERM, and the calls made so far; a call is known by its index. For
  \<open>pipeWithTimeout\<close> it also holds the \<open>bash -c\<close> command lines spawned and the
  closures of its calls.
\<close>

text \<open>
  The closure of one call of \<open>pipeWithTimeout\<close> that passed validation: the key of its
  child in \<open>processes\<close>, the flag \<open>completed\<close>, whether its timer is pending, and
  its promise.
\<close>

record pipeCall =
  processId :: string
  completed :: bool
  timerPending :: bool
  pipePromise :: "(error + ToolResponse) option"

record dstate =
  watchers :: "string list"
  processes :: "string list"
  statWatchers :: "(string \<times> nat) list"
  timers :: "nat list"
  streams :: "nat list"
  killed :: "string list"
  calls :: "watch list"
  spawned :: "string list"
  pipeCalls :: "pipeCall list"

definition initial :: dstate where
  "initial = \<lparr>watchers = [], processes = [], statWatchers = [], timers = [], streams = [],
     killed = [], calls = [], spawned = [], pipeCalls = []\<rparr>"

text \<open>\<open>Map.prototype.set\<close> on the keys: a new key goes last, a present key stays.\<close>

definition mapSet :: "string \<Rightarrow> string list \<Rightarrow> string list" where
  "mapSet k ks = (if k \<in> set ks then ks else ks @ [k])"

text \<open>\<open>fs.unwatchFile(path)\<close> with no listener given removes every listener of the path.\<close>

definition unwatchFile :: "string \<Rightarrow> dstate \<Rightarrow> dstate" where
  "unwatchFile p s = s\<lparr>statWatchers := filter (\<lambda>(q, j). q \<noteq> p) (statWatchers s)\<rparr>"

definition settle :: "nat \<Rightarrow> error + ToolResponse \<Rightarrow> dstate \<Rightarrow> dstate" where
  "settle i r s =
     (if promise (calls s ! i) = None
      then s\<lparr>calls := (calls s)[i := (calls s ! i)\<lparr>promise := Some r\<rparr>]\<rparr>
      else s)"

text \<open>
  The local function \<open>cleanup\<close> of both watchers:
  \<open>clearTimeout(timeout); if (this.watchers.has(path)) { unwatchFile(path);
  this.watchers.delete(path); }\<close>.
\<close>

definition cleanup :: "nat \<Rightarrow> dstate \<Rightarrow> dstate" where
  "cleanup i s =
     (let s1 = s\<lparr>timers := removeAll i (timers s)\<rparr>;
          p = w_path (calls s ! i)
      in if p \<in> set (watchers s1)
         then (unwatchFile p s1)\<lparr>watchers := removeAll p (watchers s1)\<rparr>
         else s1)"

text \<open>
  The local function \<open>checkFile\<close> of \<open>watchFile\<close>. A missing file and a failed
  read (caught: "File might not exist yet or be readable, continue watching") change nothing.
\<close>

definition checkFile :: "(string \<Rightarrow> fnode) \<Rightarrow> nat \<Rightarrow> dstate \<Rightarrow> dstate" where
  "checkFile fs i s =
     (let w = calls s ! i in
      case fs (w_path w) of
        Missing \<Rightarrow> s
      | Unreadable \<Rightarrow> s
      | Content content \<Rightarrow>
          if length (validatedPatterns w) > 0
          then (case scanPatterns (validatedPatterns w) content of
                  Some pattern \<Rightarrow>
                    settle i (Inr (FilePatternFound pattern (w_path w))) (cleanup i s)
                | None \<Rightarrow> s)
          else settle i (Inr (FileDetected (w_path w))) (cleanup i s))"

text \<open>The default of an optional parameter.\<close>

definition orDefault :: "'a option \<Rightarrow> 'a \<Rightarrow> 'a" where
  "orDefault v d = (case v of None \<Rightarrow> d | Some x \<Rightarrow> x)"

text \<open>
  \<open>DetectionTools.watchFile(filePath, patterns, timeoutMs = 30000)\<close>. A validation
  error is thrown before the promise executor runs (\<open>Inl\<close>, the state untouched).
  Otherwise the executor arms the timer, runs \<open>checkFile\<close> once, installs the
  \<open>fs.watchFile\<close> listener and records the path in \<open>watchers\<close>, in this order,
  and the call is returned with its promise.
\<close>

definition watchFile ::
  "(string \<Rightarrow> fnode) \<Rightarrow> string \<Rightarrow> string list option \<Rightarrow> jsnumber option \<Rightarrow> dstate
     \<Rightarrow> (error + nat) \<times> dstate" where
  "watchFile fs filePath patterns timeoutOpt s =
     (let t = orDefault timeoutOpt (Finite 30000) in
      if invalidPath filePath then (Inl (ValidationError ''Invalid file path''), s)
      else if js_lt t 100 \<or> js_gt t 300000
      then (Inl (ValidationError ''Timeout must be between 100ms and 300000ms (5 minutes)''), s)
      else (case validatePatterns (orDefault patterns []) of
              Inl e \<Rightarrow> (Inl e, s)
            | Inr vps \<Rightarrow>
                (let i = length (calls s);
                     w = \<lparr>kind = FileWatch, w_path = filePath, validatedPatterns = vps,
                          timeoutMs = t, buffer = [], found = False, promise = None\<rparr>;
                     s1 = s\<lparr>calls := calls s @ [w], timers := timers s @ [i]\<rparr>;
                     s2 = checkFile fs i s1;
                     s3 = s2\<lparr>statWatchers := statWatchers s2 @ [(filePath, i)]\<rparr>;
                     s4 = s3\<lparr>watchers := mapSet filePath (watchers s3)\<rparr>
                 in (Inr i, s4))))"

text \<open>
  The listener given to \<open>fs.watchFile\<close>: \<open>(curr, prev) => { if (curr.mtime >
  prev.mtime) checkFile(); }\<close>, called by the runtime while it is installed;
  \<open>newer\<close> is the comparison of the two modification times.
\<close>

definition statChanged :: "(string \<Rightarrow> fnode) \<Rightarrow> nat \<Rightarrow> bool \<Rightarrow> dstate \<Rightarrow> dstate" where
  "statChanged fs i newer s =
     (if i < length (calls s) \<and> (w_path (calls s ! i), i) \<in> set (statWatchers s) \<and> newer
      then checkFile fs i s else s)"

text \<open>The \<open>setTimeout\<close> callback of either watcher, run when its pending timer fires.\<close>

definition timerFired :: "nat \<Rightarrow> dstate \<Rightarrow> dstate" where
  "timerFired i s =
     (if i < length (calls s) \<and> i \<in> set (timers s)
      then (let w = calls s ! i in
            settle i
              (Inr (case kind w of
                      PipeWatch \<Rightarrow> PipeWatchTimeout (timeoutMs w)
                    | FileWatch \<Rightarrow> FileWatchTimeout (timeoutMs w) (w_path w)))
              (cleanup i s))
      else s)"

text \<open>
  \<open>DetectionTools.watchPipe(pipePath, patterns, timeoutMs = 30000)\<close>. After the
  validation the executor arms the timer; a missing pipe runs \<open>cleanup\<close> and rejects
  the promise; otherwise \<open>createReadStream\<close> opens the stream and the three
  listeners below are attached. \<open>watchPipe\<close> never adds a key to \<open>watchers\<close>.
\<close>

definition watchPipe ::
  "(string \<Rightarrow> fnode) \<Rightarrow> string \<Rightarrow> string list option \<Rightarrow> jsnumber option \<Rightarrow> dstate
     \<Rightarrow> (error + nat) \<times> dstate" where
  "watchPipe fs pipePath patterns timeoutOpt s =
     (let t = orDefault timeoutOpt (Finite 30000) in
      if invalidPath pipePath then (Inl (ValidationError ''Invalid pipe path''), s)
      else if js_lt t 100 \<or> js_gt t 300000
      then (Inl (ValidationError ''Timeout must be between 100ms and 300000ms (5 minutes)''), s)
      else (case validatePatterns (orDefault patterns []) of
              Inl e \<Rightarrow> (Inl e, s)
            | Inr vps \<Rightarrow>
                (let i = length (calls s);
                     w = \<lparr>kind = PipeWatch, w_path = pipePath, validatedPatterns = vps,
                          timeoutMs = t, buffer = [], found = False, promise = None\<rparr>;
                     s1 = s\<lparr>calls := calls s @ [w], timers := timers s @ [i]\<rparr>
                 in if fs pipePath = Missing
                    then (Inr i,
                          settle i (Inl (ValidationError (''Pipe does not exist: '' @ pipePath)))
                            (cleanup i s1))
                    else (Inr i, s1\<lparr>streams := streams s1 @ [i]\<rparr>))))"

text \<open>
  \<open>stream.on('data', ...)\<close>: the chunk is appended to \<open>buffer\<close>, and the buffer is
  scanned only when patterns were given.
\<close>

definition pipeData :: "nat \<Rightarrow> string \<Rightarrow> dstate \<Rightarrow> dstate" where
  "pipeData i chunk s =
     (if i < length (calls s) \<and> i \<in> set (streams s)
      then (let w = (calls s ! i)\<lparr>buffer := buffer (calls s ! i) @ chunk\<rparr>;
                s1 = s\<lparr>calls := (calls s)[i := w]\<rparr>
            in if length (validatedPatterns w) > 0
               then (case scanPatterns (validatedPatterns w) (buffer w) of
                       Some pattern \<Rightarrow>
                         settle i (Inr (PipePatternFound pattern (w_path w)))
                           (cleanup i (s1\<lparr>calls := (calls s1)[i := w\<lparr>found := True\<rparr>]\<rparr>))
                     | None \<Rightarrow> s1)
               else s1)
      else s)"

text \<open>\<open>stream.on('end', ...)\<close>; the runtime closes a read stream that has ended.\<close>

definition pipeEnd :: "nat \<Rightarrow> dstate \<Rightarrow> dstate" where
  "pipeEnd i s =
     (if i < length (calls s) \<and> i \<in> set (streams s)
      then (let w = calls s ! i;
                s1 = s\<lparr>streams := removeAll i (streams s)\<rparr>
            in settle i (Inr (PipeEOF (w_path w) (found w))) (cleanup i s1))
      else s)"

text \<open>\<open>stream.on('error', ...)\<close>; the runtime destroys a read stream that has failed.\<close>

definition pipeError :: "nat \<Rightarrow> string \<Rightarrow> dstate \<Rightarrow> dstate" where
  "pipeError i message s =
     (if i < length (calls s) \<and> i \<in> set (streams s)
      then (let s1 = s\<lparr>streams := removeAll i (streams s)\<rparr>
            in settle i (Inl (ValidationError (''Error reading pipe: '' @ message)))
                 (cleanup i s1))
      else s)"

text \<open>
  \<open>DetectionTools.cleanupDetection()\<close>: every key of \<open>watchers\<close> is unwatched and
  counted and the map is cleared; every tracked process is sent SIGTERM and counted,
  unless \<open>kill\<close> throws, and the map is cleared. The \<open>find ... -delete\<close> command
  that follows acts on the file system only, and its failure is ignored. No timer is
  cleared and no promise is resolved or rejected here.
\<close>

definition cleanupDetection :: "(string \<Rightarrow> bool) \<Rightarrow> dstate \<Rightarrow> ToolResponse \<times> dstate" where
  "cleanupDetection killThrows s =
     (let cleaned1 = length (watchers s);
          s1 = (fold unwatchFile (watchers s) s)\<lparr>watchers := []\<rparr>;
          signalled = filter (\<lambda>procId. \<not> killThrows procId) (processes s1);
          s2 = s1\<lparr>killed := killed s1 @ signalled, processes := []\<rparr>
      in (DetectionCleanup (cleaned1 + length signalled), s2))"

text \<open>What the caller of call \<open>i\<close> has received: the state of its promise.\<close>

definition outcome :: "nat \<Rightarrow> dstate \<Rightarrow> (error + ToolResponse) option" where
  "outcome i s = (if i < length (calls s) then promise (calls s ! i) else None)"

text \<open>The listeners that \<open>fs.watchFile\<close> holds for a path.\<close>

definition watched :: "string \<Rightarrow> dstate \<Rightarrow> bool" where
  "watched p s = list_ex (\<lambda>(q, j). q = p) (statWatchers s)"

section \<open>Shell commands (utils/command.ts)\<close>

text \<open>
  What \<open>child_process.exec\<close> gives for a command: the captured output when the command
  exits with status 0, a failure with its message otherwise. \<open>execAsync\<close> trims both
  outputs and turns the failure into a \<open>ZellijError\<close>. The shell itself belongs to the
  environment: a function from the command to what running it gives.
\<close>

datatype execResult = Exited string string | Failed string

definition execAsync :: "execResult \<Rightarrow> error + string \<times> string" where
  "execAsync r =
     (case r of
        Failed message \<Rightarrow> Inl (ZellijError (''Command execution failed: '' @ message))
      | Exited out err \<Rightarrow> Inr (trim out, trim err))"

text \<open>\<open>error instanceof Error ? error.message : String(error)\<close> on the errors above.\<close>

fun errorMessage :: "error \<Rightarrow> string" where
  "errorMessage (ValidationError message) = message"
| "errorMessage (ZellijError message) = message"

text \<open>The double quote of the command templates.\<close>

definition dquote :: string where
  "dquote = [CHR 0x22]"

section \<open>Named pipes (tools/detection.ts)\<close>

text \<open>The mode check \<open>mode.match(/^0[0-7]{3}$/)\<close>.\<close>

definition octalDigit :: "char \<Rightarrow> bool" where
  "octalDigit c = (c \<in> set ''01234567'')"

definition octalMode :: "string \<Rightarrow> bool" where
  "octalMode m =
     (case m of
        [a, b, c, d] \<Rightarrow> a = CHR ''0'' \<and> octalDigit b \<and> octalDigit c \<and> octalDigit d
      | _ \<Rightarrow> False)"

text \<open>
  \<open>DetectionTools.createNamedPipe(pipeName, mode = '0666')\<close>. The result comes with
  the list of the commands handed to the shell, in order.
\<close>

definition createNamedPipe ::
  "(string \<Rightarrow> execResult) \<Rightarrow> string \<Rightarrow> string option \<Rightarrow> string list \<times> (error + ToolResponse)" where
  "createNamedPipe sh pipeName modeOpt =
     (let mode = orDefault modeOpt ''0666'';
          nameValidation = validateString pipeName ''pipe name'' 64
      in if \<not> valid nameValidation
         then ([], Inl (ValidationError
                 (''Invalid pipe name: '' @ join '', '' (errors nameValidation))))
         else if \<not> octalMode mode
         then ([], Inl (ValidationError
                 (''Mode must be in octal format (e.g., '' @ dquote @ ''0666'' @ dquote @ '')'')))
         else (let pipePath = ''/tmp/zellij-pipe-'' @ sanitized nameValidation;
                   command = ''mkfifo -m '' @ mode @ '' '' @ dquote @ pipePath @ dquote
               in ([command],
                   case execAsync (sh command) of
                     Inl e \<Rightarrow> Inl (ValidationError
                                (''Failed to create named pipe: '' @ errorMessage e))
                   | Inr (out, err) \<Rightarrow> Inr (NamedPipeCreated pipePath mode out))))"

section \<open>Process status (tools/detection.ts)\<close>

text \<open>
  \<open>parseInt(string)\<close> with no radix: leading white space is skipped, a sign is read,
  a prefix \<open>0x\<close> or \<open>0X\<close> selects radix 16, and the longest run of digits of the
  radix is the value; with no digit the result is NaN. The value is exact here; the
  rounding of the source to a double keeps every comparison the caller makes.
\<close>

fun indexOf :: "char \<Rightarrow> string \<Rightarrow> nat option" where
  "indexOf c [] = None"
| "indexOf c (d # ds) = (if c = d then Some 0 else map_option Suc (indexOf c ds))"

definition digitValue :: "char \<Rightarrow> nat option" where
  "digitValue c =
     (case indexOf c ''0123456789abcdef'' of
        Some v \<Rightarrow> Some v
      | None \<Rightarrow> map_option (\<lambda>v. v + 10) (indexOf c ''ABCDEF''))"

definition radixDigit :: "nat \<Rightarrow> char \<Rightarrow> bool" where
  "radixDigit R c = (case digitValue c of None \<Rightarrow> False | Some v \<Rightarrow> v < R)"

definition digitsValue :: "nat \<Rightarrow> string \<Rightarrow> nat" where
  "digitsValue R ds =
     foldl (\<lambda>acc c. acc * R + (case digitValue c of None \<Rightarrow> 0 | Some v \<Rightarrow> v)) 0 ds"

definition parseInt :: "string \<Rightarrow> jsnumber" where
  "parseInt inputString =
     (let S = dropWhile isWhiteSpace inputString;
          negative = (case S of [] \<Rightarrow> False | c # cs \<Rightarrow> c = CHR ''-'');
          S1 = (case S of
                  [] \<Rightarrow> []
                | c # cs \<Rightarrow> if c = CHR ''+'' \<or> c = CHR ''-'' then cs else S);
          hex = (take 2 S1 = ''0x'' \<or> take 2 S1 = ''0X'');
          R = (if hex then 16 else 10);
          S2 = (if hex then drop 2 S1 else S1);
          Z = takeWhile (radixDigit R) S2
      in if Z = [] then NaN
         else Finite ((if negative then - 1 else 1) * real (digitsValue R Z)))"

text \<open>\<open>str.split(/\s+/)\<close>: the fields between the runs of white space.\<close>

fun splitWs :: "string \<Rightarrow> string \<Rightarrow> string list" where
  "splitWs cur [] = [cur]"
| "splitWs cur (c # cs) =
     (if isWhiteSpace c
      then (case cs of
              [] \<Rightarrow> [cur, []]
            | d # ds \<Rightarrow> if isWhiteSpace d then splitWs cur cs else cur # splitWs [] cs)
      else splitWs (cur @ [c]) cs)"

text \<open>An element of a destructured array in a template: \<open>undefined\<close> when it is missing.\<close>

definition field :: "string list \<Rightarrow> nat \<Rightarrow> string" where
  "field xs k = (if k < length xs then xs ! k else ''undefined'')"

datatype pidArg = PidString string | PidNumber jsnumber

text \<open>
  \<open>DetectionTools.pollProcess(pid, intervalMs = 1000)\<close>. The environment \<open>ps\<close> gives
  the result of \<open>ps -p ${pidNum} -o pid,ppid,state,comm --no-headers\<close>; the first
  component of the result lists the identifiers probed.
\<close>

definition pollProcess ::
  "(jsnumber \<Rightarrow> execResult) \<Rightarrow> pidArg \<Rightarrow> jsnumber option
     \<Rightarrow> jsnumber list \<times> (error + ToolResponse)" where
  "pollProcess ps pid intervalOpt =
     (let pidNum = (case pid of PidString str \<Rightarrow> parseInt str | PidNumber n \<Rightarrow> n);
          intervalMs = orDefault intervalOpt (Finite 1000)
      in if isNaN pidNum \<or> js_le pidNum 0 \<or> js_gt pidNum 4194304
         then ([], Inl (ValidationError ''Invalid PID: must be a positive integer''))
         else if js_lt intervalMs 100 \<or> js_gt intervalMs 10000
         then ([], Inl (ValidationError ''Interval must be between 100ms and 10000ms''))
         else ([pidNum],
               case execAsync (ps pidNum) of
                 Inl e \<Rightarrow> Inr (ProcessNotFoundOrError pidNum (errorMessage e))
               | Inr (out, err) \<Rightarrow>
                   if trim out \<noteq> []
                   then (let fields = splitWs [] (trim out)
                         in Inr (ProcessStatus pidNum
                                  [field fields 0, field fields 1, field fields 2, field fields 3]))
                   else Inr (ProcessNotFound pidNum)))"

section \<open>Command validation and piped commands\<close>

text \<open>
  The regular expressions of \<open>Validator.validateCommand\<close>, each as a test of the whole
  string for a match anywhere. \<open>afterOccurrences lit s\<close> lists what follows each
  occurrence of \<open>lit\<close> in \<open>s\<close>; \<open>dotStarThen lit s\<close> lists what follows each match
  of \<open>.*lit\<close> at the start of \<open>s\<close>, where \<open>.\<close> is any code unit but a line
  terminator.
\<close>

definition lineTerminator :: "char \<Rightarrow> bool" where
  "lineTerminator c = (c = CHR 0x0A \<or> c = CHR 0x0D)"

fun afterOccurrences :: "string \<Rightarrow> string \<Rightarrow> string list" where
  "afterOccurrences lit [] = (if lit = [] then [[]] else [])"
| "afterOccurrences lit (c # cs) =
     (if prefix lit (c # cs) then [drop (length lit) (c # cs)] else [])
     @ afterOccurrences lit cs"

fun dotStarThen :: "string \<Rightarrow> string \<Rightarrow> string list" where
  "dotStarThen lit [] = (if lit = [] then [[]] else [])"
| "dotStarThen lit (c # cs) =
     (if prefix lit (c # cs) then [drop (length lit) (c # cs)] else [])
     @ (if lineTerminator c then [] else dotStarThen lit cs)"

definition dangerousChar :: "char \<Rightarrow> bool" where
  "dangerousChar c =
     (c \<in> set [CHR '';'', CHR ''&'', CHR ''|'', CHR 0x60, CHR ''$'', CHR ''('', CHR '')'',
               CHR ''{'', CHR ''}'', CHR ''['', CHR '']''])"

text \<open>\<open>/rm\s+-rf/\<close>: \<open>rm\<close>, one or more white space, \<open>-rf\<close>.\<close>

definition matchRmRf :: "string \<Rightarrow> bool" where
  "matchRmRf s =
     list_ex (\<lambda>r. case r of
                    [] \<Rightarrow> False
                  | c # cs \<Rightarrow> isWhiteSpace c \<and> prefix ''-rf'' (dropWhile isWhiteSpace cs))
       (afterOccurrences ''rm'' s)"

text \<open>\<open>/curl.*\|.*sh/\<close> and \<open>/wget.*\|.*sh/\<close>.\<close>

definition matchPipeToShell :: "string \<Rightarrow> string \<Rightarrow> bool" where
  "matchPipeToShell tool s =
     list_ex (\<lambda>r1. list_ex (\<lambda>r2. dotStarThen ''sh'' r2 \<noteq> []) (dotStarThen ''|'' r1))
       (afterOccurrences tool s)"

text \<open>The six patterns in order, each with its \<open>source\<close> for the error message.\<close>

definition backslash :: string where
  "backslash = [CHR 0x5C]"

definition dangerousPatterns :: "((string \<Rightarrow> bool) \<times> string) list" where
  "dangerousPatterns =
     [(list_ex dangerousChar, ''[;&|'' @ [CHR 0x60] @ ''$(){}['' @ backslash @ '']]''),
      (\<lambda>s. str_includes s ''..'', backslash @ ''.'' @ backslash @ ''.''),
      (matchRmRf, ''rm'' @ backslash @ ''s+-rf''),
      (\<lambda>s. str_includes s ''sudo'', ''sudo''),
      (matchPipeToShell ''curl'', ''curl.*'' @ backslash @ ''|.*sh''),
      (matchPipeToShell ''wget'', ''wget.*'' @ backslash @ ''|.*sh'')]"

definition validateCommand :: "string \<Rightarrow> ValidationResult" where
  "validateCommand command =
     (let errs =
        (if command = [] then [''Command is required and must be a string'']
         else
           concat (map (\<lambda>(matches, source).
                     if matches command
                     then [''Command contains potentially dangerous pattern: '' @ source]
                     else [])
                   dangerousPatterns)
           @ (if length command > 1000 then [''Command is too long (max 1000 characters)'']
              else []))
      in \<lparr>valid = (length errs = 0), errors = errs, sanitized = trim command\<rparr>)"

text \<open>
  \<open>DetectionTools.pipeWithTimeout(command, targetPipe, timeoutMs = 30000)\<close> up to the
  return of its promise. The environment gives the fresh \<open>processId\<close> and whether
  \<open>spawn\<close> throws (with its message). After the three validations the timer is armed
  and \<open>bash -c\<close> is spawned with the command redirected to the pipe, and the child is
  recorded in \<open>processes\<close>; when \<open>spawn\<close> throws, the timer is cleared and the
  promise is rejected.
\<close>

definition pipeWithTimeout ::
  "string \<Rightarrow> string option \<Rightarrow> string \<Rightarrow> string \<Rightarrow> jsnumber option \<Rightarrow> dstate
     \<Rightarrow> (error + nat) \<times> dstate" where
  "pipeWithTimeout newId spawnThrows command targetPipe timeoutOpt s =
     (let t = orDefault timeoutOpt (Finite 30000);
          cmdValidation = validateCommand command
      in if \<not> valid cmdValidation
         then (Inl (ValidationError
                 (''Invalid command: '' @ join '', '' (errors cmdValidation))), s)
         else if invalidPath targetPipe
         then (Inl (ValidationError ''Invalid target pipe path''), s)
         else if js_lt t 1000 \<or> js_gt t 600000
         then (Inl (ValidationError
                 ''Timeout must be between 1000ms and 600000ms (10 minutes)''), s)
         else (let n = length (pipeCalls s);
                   c = \<lparr>processId = newId, completed = False, timerPending = True,
                        pipePromise = None\<rparr>
               in case spawnThrows of
                    Some message \<Rightarrow>
                      (Inr n,
                       s\<lparr>pipeCalls := pipeCalls s @
                           [c\<lparr>completed := True, timerPending := False,
                              pipePromise := Some (Inl (ValidationError
                                (''Failed to execute piped command: '' @ message)))\<rparr>]\<rparr>)
                  | None \<Rightarrow>
                      (Inr n,
                       s\<lparr>pipeCalls := pipeCalls s @ [c],
                         spawned := spawned s @
                           [sanitized cmdValidation @ '' > '' @ dquote @ targetPipe @ dquote],
                         processes := mapSet newId (processes s)\<rparr>)))"

section \<open>The wrapper generator (tools/detection.ts)\<close>

text \<open>
  The script that \<open>createLLMWrapper\<close> writes is a fixed text with five values
  interpolated; the record holds the five values.
\<close>

record wrapper =
  WRAPPER_NAME :: string
  STATUS_FILE :: string
  MARKER :: string
  TIMEOUT_MS :: jsnumber
  wrappedCommand :: string

text \<open>
  \<open>DetectionTools.createLLMWrapper(wrapperName, llmCommand, detectMarker =
  '<<<LLM_COMPLETE>>>', timeoutMs = 60000)\<close>. The environment says whether
  \<open>writeFileSync\<close> throws (with its message); the result comes with the scripts
  written, each with its path.
\<close>

definition createLLMWrapper ::
  "string option \<Rightarrow> string \<Rightarrow> string \<Rightarrow> string option \<Rightarrow> jsnumber option
     \<Rightarrow> (string \<times> wrapper) list \<times> (error + ToolResponse)" where
  "createLLMWrapper writeThrows wrapperName llmCommand detectMarker timeoutOpt =
     (let timeoutMs = orDefault timeoutOpt (Finite 60000);
          nameValidation = validateString wrapperName ''wrapper name'' 32;
          cmdValidation = validateCommand llmCommand;
          markerValidation =
            validateString (orDefault detectMarker ''<<<LLM_COMPLETE>>>'') ''detection marker'' 64
      in if \<not> valid nameValidation
         then ([], Inl (ValidationError
                 (''Invalid wrapper name: '' @ join '', '' (errors nameValidation))))
         else if \<not> valid cmdValidation
         then ([], Inl (ValidationError
                 (''Invalid LLM command: '' @ join '', '' (errors cmdValidation))))
         else if \<not> valid markerValidation
         then ([], Inl (ValidationError
                 (''Invalid marker: '' @ join '', '' (errors markerValidation))))
         else (let wrapperPath = ''/tmp/llm-wrapper-'' @ sanitized nameValidation @ ''.sh'';
                   statusPath = ''/tmp/llm-status-'' @ sanitized nameValidation;
                   wrapperScript =
                     \<lparr>WRAPPER_NAME = sanitized nameValidation, STATUS_FILE = statusPath,
                      MARKER = sanitized markerValidation, TIMEOUT_MS = timeoutMs,
                      wrappedCommand = sanitized cmdValidation\<rparr>
               in case writeThrows of
                    Some message \<Rightarrow>
                      ([], Inl (ValidationError
                             (''Failed to create wrapper script: '' @ message)))
                  | None \<Rightarrow>
                      ([(wrapperPath, wrapperScript)],
                       Inr (WrapperCreated wrapperPath statusPath (sanitized markerValidation)
                              timeoutMs))))"

text \<open>
  The statements of the script that write the status file, in the order one run
  executes them. A statement is \<open>echo "text" > "$STATUS_FILE"\<close>, which replaces the
  content by one line, or \<open>echo "text" >> "$STATUS_FILE"\<close>, which adds a line.
\<close>

datatype redirect = Truncate | Append

type_synonym statusWrite = "redirect \<times> string"

text \<open>
  A run depends on three things of its environment: the outputs of the successive
  \<open>$(date -Iseconds)\<close>, the exit status of \<open>timeout $((TIMEOUT_MS / 1000))s
  command "$@"\<close> (124 when the command exceeded the time), and the status that
  \<open>wait "$LLM_PID"\<close> reports for the background pipeline. The script runs under
  \<open>set -e\<close>, so a status of \<open>wait\<close> other than 0 ends it there.

  \<^item> \<open>echo "running" > "$STATUS_FILE"\<close> and the log line appended after it;
  \<^item> inside the braces piped to \<open>tee\<close>, when the command fails: for status 124
    \<open>echo "timeout" >> "$STATUS_FILE"\<close>, otherwise \<open>echo "error:$EXIT_CODE" >>
    "$STATUS_FILE"\<close>, each followed by its appended log line;
  \<^item> after \<open>wait\<close>: \<open>echo "complete:$LLM_EXIT_CODE" > "$STATUS_FILE"\<close> for status 0,
    otherwise \<open>echo "error:$LLM_EXIT_CODE" > "$STATUS_FILE"\<close>, each followed by its
    appended log line.
\<close>

definition statusWrites :: "(nat \<Rightarrow> string) \<Rightarrow> nat \<Rightarrow> nat \<Rightarrow> statusWrite list" where
  "statusWrites date cmdExit waitStatus =
     [(Truncate, ''running''), (Append, date 0 @ '': Starting LLM query'')]
     @ (if cmdExit \<noteq> 0
        then (if cmdExit = 124
              then [(Append, ''timeout''), (Append, date 1 @ '': LLM query timed out'')]
              else [(Append, ''error:'' @ showNat cmdExit),
                    (Append, date 1 @ '': LLM query failed with code '' @ showNat cmdExit)])
        else [])
     @ (if waitStatus \<noteq> 0 then []
        else (let LLM_EXIT_CODE = waitStatus in
              if LLM_EXIT_CODE = 0
              then [(Truncate, ''complete:'' @ showNat LLM_EXIT_CODE),
                    (Append, date 2 @ '': LLM query completed successfully'')]
              else [(Truncate, ''error:'' @ showNat LLM_EXIT_CODE),
                    (Append, date 2 @ '': LLM query failed with code ''
                       @ showNat LLM_EXIT_CODE)]))"

text \<open>The status file as its lines, and its content after each write of a run.\<close>

fun applyWrite :: "statusWrite \<Rightarrow> string list \<Rightarrow> string list" where
  "applyWrite (Truncate, line) file = [line]"
| "applyWrite (Append, line) file = file @ [line]"

fun history :: "statusWrite list \<Rightarrow> string list \<Rightarrow> string list list" where
  "history [] file = []"
| "history (w # ws) file = applyWrite w file # history ws (applyWrite w file)"

text \<open>The canonical value of the status file: its first line.\<close>

fun canonical :: "string list \<Rightarrow> string option" where
  "canonical [] = None"
| "canonical (line # rest) = Some line"

section \<open>The claims in the words of the specification\<close>

text \<open>
  "The first pattern in request-list order that occurs anywhere in the buffer": \<open>p\<close>
  stands at some position of the list, occurs in the content, and no pattern at an
  earlier position occurs in it.
\<close>

definition firstOccurring :: "string list \<Rightarrow> string \<Rightarrow> string \<Rightarrow> bool" where
  "firstOccurring ps content p =
     (\<exists>k < length ps. ps ! k = p \<and> sublist p content
        \<and> (\<forall>j < k. \<not> sublist (ps ! j) content))"

text \<open>
  "An identifier that does not correspond to a running process": the probe fails (as
  \<open>ps -p\<close> does, with status 1, for an identifier without a process) or prints nothing.
\<close>

definition notRunning :: "execResult \<Rightarrow> bool" where
  "notRunning r = (case r of Failed message \<Rightarrow> True | Exited out err \<Rightarrow> trim out = [])"

text \<open>"A NotFound result": one of the two responses that say the process was not found.\<close>

fun isNotFound :: "ToolResponse \<Rightarrow> bool" where
  "isNotFound (ProcessNotFound n) = True"
| "isNotFound (ProcessNotFoundOrError n message) = True"
| "isNotFound r = False"

text \<open>The identifier a query asks about: a number as it is, a string through \<open>parseInt\<close>.\<close>

fun pidNumOf :: "pidArg \<Rightarrow> jsnumber" where
  "pidNumOf (PidString str) = parseInt str"
| "pidNumOf (PidNumber n) = n"

text \<open>A decimal digit, as the numeric prefix of an identifier is made of.\<close>

definition decimalDigit :: "char \<Rightarrow> bool" where
  "decimalDigit c = (c \<in> set ''0123456789'')"

text \<open>
  An environment that answers one question only: asked anything else, the shell or the
  probe fails.
\<close>

definition answersOnly :: "'a \<Rightarrow> execResult \<Rightarrow> 'a \<Rightarrow> execResult" where
  "answersOnly question answer x = (if x = question then answer else Failed ''not asked'')"

section \<open>Lemmas on strings, validation and the scan\<close>

lemma str_includes_sublist: "str_includes s p = sublist p s"
  by (induction s) (auto simp: sublist_Cons_right)

lemma validateString_valid:
  "valid (validateString v f n) = (v \<noteq> [] \<and> length v \<le> n \<and> trim v \<noteq> [])"
  by (auto simp: validateString_def Let_def)

lemma validateString_sanitized: "sanitized (validateString v f n) = trim v"
  by (simp add: validateString_def Let_def)

lemma validatePatterns_trim: "validatePatterns ps = Inr vps \<Longrightarrow> vps = map trim ps"
  by (induction ps arbitrary: vps)
     (auto simp: Let_def validateString_sanitized split: if_splits sum.splits)

lemma scanPatterns_first:
  "scanPatterns vps c = Some p \<longleftrightarrow>
     (\<exists>k < length vps. vps ! k = p \<and> str_includes c p
        \<and> (\<forall>j < k. \<not> str_includes c (vps ! j)))"
proof (induction vps)
  case Nil
  then show ?case by simp
next
  case (Cons v vs)
  show ?case
  proof (cases "str_includes c v")
    case True
    have "(\<exists>k < length (v # vs). (v # vs) ! k = p \<and> str_includes c p
            \<and> (\<forall>j < k. \<not> str_includes c ((v # vs) ! j))) \<longleftrightarrow> v = p"
    proof
      assume "\<exists>k < length (v # vs). (v # vs) ! k = p \<and> str_includes c p
                \<and> (\<forall>j < k. \<not> str_includes c ((v # vs) ! j))"
      then obtain k where k: "(v # vs) ! k = p" "\<forall>j < k. \<not> str_includes c ((v # vs) ! j)"
        by blast
      have "k = 0"
      proof (rule ccontr)
        assume "k \<noteq> 0"
        then have "\<not> str_includes c ((v # vs) ! 0)" using k(2) by blast
        then show False using True by simp
      qed
      then show "v = p" using k(1) by simp
    next
      assume "v = p"
      then have "0 < length (v # vs) \<and> (v # vs) ! 0 = p \<and> str_includes c p
                   \<and> (\<forall>j < 0. \<not> str_includes c ((v # vs) ! j))"
        using True by simp
      then show "\<exists>k < length (v # vs). (v # vs) ! k = p \<and> str_includes c p
                   \<and> (\<forall>j < k. \<not> str_includes c ((v # vs) ! j))"
        by blast
    qed
    then show ?thesis using True by simp
  next
    case False
    have "(\<exists>k < length (v # vs). (v # vs) ! k = p \<and> str_includes c p
            \<and> (\<forall>j < k. \<not> str_includes c ((v # vs) ! j)))
          \<longleftrightarrow> (\<exists>k < length vs. vs ! k = p \<and> str_includes c p
            \<and> (\<forall>j < k. \<not> str_includes c (vs ! j)))"
    proof
      assume "\<exists>k < length (v # vs). (v # vs) ! k = p \<and> str_includes c p
                \<and> (\<forall>j < k. \<not> str_includes c ((v # vs) ! j))"
      then obtain k where k: "k < length (v # vs)" "(v # vs) ! k = p" "str_includes c p"
          "\<forall>j < k. \<not> str_includes c ((v # vs) ! j)"
        by blast
      from k(2,3) False have "k \<noteq> 0" by (cases k) auto
      then obtain m where m: "k = Suc m" by (cases k) auto
      have "\<forall>j < m. \<not> str_includes c (vs ! j)"
      proof (intro allI impI)
        fix j assume "j < m"
        then have "Suc j < k" using m by simp
        then have "\<not> str_includes c ((v # vs) ! Suc j)" using k(4) by blast
        then show "\<not> str_includes c (vs ! j)" by simp
      qed
      moreover have "m < length vs" "vs ! m = p" using k(1,2) m by auto
      ultimately show "\<exists>k < length vs. vs ! k = p \<and> str_includes c p
                         \<and> (\<forall>j < k. \<not> str_includes c (vs ! j))"
        using k(3) by blast
    next
      assume "\<exists>k < length vs. vs ! k = p \<and> str_includes c p
                \<and> (\<forall>j < k. \<not> str_includes c (vs ! j))"
      then obtain m where m: "m < length vs" "vs ! m = p" "str_includes c p"
          "\<forall>j < m. \<not> str_includes c (vs ! j)"
        by blast
      have "\<forall>j < Suc m. \<not> str_includes c ((v # vs) ! j)"
      proof (intro allI impI)
        fix j assume j: "j < Suc m"
        show "\<not> str_includes c ((v # vs) ! j)"
        proof (cases j)
          case 0
          then show ?thesis using False by simp
        next
          case (Suc n)
          then show ?thesis using j m(4) by simp
        qed
      qed
      moreover have "Suc m < length (v # vs)" "(v # vs) ! Suc m = p" using m(1,2) by auto
      ultimately show "\<exists>k < length (v # vs). (v # vs) ! k = p \<and> str_includes c p
                         \<and> (\<forall>j < k. \<not> str_includes c ((v # vs) ! j))"
        using m(3) by blast
    qed
    then show ?thesis using False Cons.IH by simp
  qed
qed

lemma scanPatterns_firstOccurring: "scanPatterns vps c = Some p \<longleftrightarrow> firstOccurring vps c p"
  by (simp add: scanPatterns_first firstOccurring_def str_includes_sublist)

lemma scanPatterns_none:
  "scanPatterns vps c = None \<longleftrightarrow> (\<forall>p \<in> set vps. \<not> str_includes c p)"
  by (induction vps) auto

section \<open>Lemmas on the promise of a call\<close>

lemma outcome_settle:
  "i < length (calls s) \<Longrightarrow> outcome i s = None \<Longrightarrow> outcome i (settle i r s) = Some r"
  by (simp add: outcome_def settle_def)

lemma calls_cleanup: "calls (cleanup i s) = calls s"
  by (simp add: cleanup_def Let_def unwatchFile_def)

lemma outcome_cleanup: "outcome i (cleanup j s) = outcome i s"
  by (simp add: outcome_def calls_cleanup)

lemma checkFile_reports:
  assumes "i < length (calls s)" and "outcome i s = None"
    and "validatedPatterns (calls s ! i) = vps" and "vps \<noteq> []"
    and "fs (w_path (calls s ! i)) = Content c"
  shows "outcome i (checkFile fs i s) =
     (case scanPatterns vps c of
        None \<Rightarrow> None
      | Some p \<Rightarrow> Some (Inr (FilePatternFound p (w_path (calls s ! i)))))"
  using assms
  by (auto simp: checkFile_def Let_def outcome_settle outcome_cleanup calls_cleanup
      split: option.splits)

lemma pipeData_reports:
  assumes "i < length (calls s)" and "i \<in> set (streams s)" and "outcome i s = None"
    and "validatedPatterns (calls s ! i) = vps" and "vps \<noteq> []"
  shows "outcome i (pipeData i chunk s) =
     (case scanPatterns vps (buffer (calls s ! i) @ chunk) of
        None \<Rightarrow> None
      | Some p \<Rightarrow> Some (Inr (PipePatternFound p (w_path (calls s ! i)))))"
  using assms
  by (auto simp: pipeData_def Let_def outcome_def settle_def calls_cleanup cleanup_def
      unwatchFile_def split: option.splits)

lemma timerFired_outcome:
  assumes "i < length (calls s)" and "i \<in> set (timers s)" and "outcome i s = None"
  shows "outcome i (timerFired i s) =
     Some (Inr (case kind (calls s ! i) of
                  PipeWatch \<Rightarrow> PipeWatchTimeout (timeoutMs (calls s ! i))
                | FileWatch \<Rightarrow> FileWatchTimeout (timeoutMs (calls s ! i)) (w_path (calls s ! i))))"
proof -
  have "i < length (calls (cleanup i s))" using assms(1) by (simp add: calls_cleanup)
  moreover have "outcome i (cleanup i s) = None" using assms(3) by (simp add: outcome_cleanup)
  ultimately show ?thesis
    using assms(1,2) by (simp add: timerFired_def Let_def outcome_settle)
qed

section \<open>Lemmas on the sweep\<close>

lemma fold_unwatchFile:
  "fold unwatchFile ps s = s\<lparr>statWatchers := filter (\<lambda>(q, j). q \<notin> set ps) (statWatchers s)\<rparr>"
proof (induction ps arbitrary: s)
  case Nil
  then show ?case by simp
next
  case (Cons p ps)
  have "fold unwatchFile (p # ps) s = fold unwatchFile ps (unwatchFile p s)" by simp
  also have "\<dots> = (unwatchFile p s)\<lparr>statWatchers :=
      filter (\<lambda>(q, j). q \<notin> set ps) (statWatchers (unwatchFile p s))\<rparr>"
    by (rule Cons.IH)
  also have "\<dots> = s\<lparr>statWatchers := filter (\<lambda>(q, j). q \<notin> set (p # ps)) (statWatchers s)\<rparr>"
    by (simp add: unwatchFile_def split_def conj_commute)
  finally show ?case .
qed

lemma cleanupDetection_state:
  "snd (cleanupDetection kt s) =
     s\<lparr>statWatchers := filter (\<lambda>(q, j). q \<notin> set (watchers s)) (statWatchers s),
       watchers := [],
       killed := killed s @ filter (\<lambda>procId. \<not> kt procId) (processes s),
       processes := []\<rparr>"
  by (simp add: cleanupDetection_def Let_def fold_unwatchFile)

text \<open>The definitions that the simplifier unfolds to run the watchers on a concrete input.\<close>

lemmas run_defs =
  watchFile_def watchPipe_def initial_def orDefault_def invalidPath_def matchPathRegex_def
  pathChar_def wordChar_def validateString_def trim_def isWhiteSpace_def checkFile_def
  cleanup_def settle_def mapSet_def unwatchFile_def Let_def outcome_def statChanged_def
  timerFired_def pipeData_def pipeEnd_def pipeError_def cleanupDetection_def watched_def

section \<open>C1: what a resolved watch leaves behind\<close>

text \<open>
  C1 (the code at the failing input). A file watch for \<open>complete:\<close> on a status file
  that already holds \<open>complete:0\<close> resolves in the immediate check: \<open>cleanup\<close> runs
  while nothing is registered yet, the outcome is delivered, and only then the executor
  installs the \<open>fs.watchFile\<close> listener and records the path in \<open>watchers\<close>. When the
  call has completed, its registry entry and its listener are both in place, the timer
  alone is cleared.
\<close>

theorem immediate_match_leaves_watcher_registered:
  "fst (watchFile (\<lambda>p. Content ''complete:0'') ''/tmp/llm-status-job''
          (Some [''complete:'']) None initial) = Inr 0
   \<and> outcome 0 (snd (watchFile (\<lambda>p. Content ''complete:0'') ''/tmp/llm-status-job''
          (Some [''complete:'']) None initial))
       = Some (Inr (FilePatternFound ''complete:'' ''/tmp/llm-status-job''))
   \<and> watchers (snd (watchFile (\<lambda>p. Content ''complete:0'') ''/tmp/llm-status-job''
          (Some [''complete:'']) None initial))
       = [''/tmp/llm-status-job'']
   \<and> statWatchers (snd (watchFile (\<lambda>p. Content ''complete:0'') ''/tmp/llm-status-job''
          (Some [''complete:'']) None initial))
       = [(''/tmp/llm-status-job'', 0)]
   \<and> timers (snd (watchFile (\<lambda>p. Content ''complete:0'') ''/tmp/llm-status-job''
          (Some [''complete:'']) None initial))
       = []"
  by (simp add: run_defs)

section \<open>C2: the sweep\<close>

text \<open>
  C2 (as amended). \<open>cleanupDetection\<close> empties the registry and removes the listeners
  of every registered path, so no entry of a watch is present afterwards. It delivers
  nothing: the promise of every call is as it was, and every timer stays armed. A file
  watch that was in flight therefore receives, when its timer fires, the ordinary
  timeout response.
\<close>

theorem sweep_unregisters_without_delivering:
  "watchers (snd (cleanupDetection kt s)) = []
   \<and> (\<forall>p \<in> set (watchers s). \<not> watched p (snd (cleanupDetection kt s)))
   \<and> (\<forall>i. outcome i (snd (cleanupDetection kt s)) = outcome i s)
   \<and> timers (snd (cleanupDetection kt s)) = timers s
   \<and> streams (snd (cleanupDetection kt s)) = streams s
   \<and> (\<forall>i. i < length (calls s) \<and> i \<in> set (timers s) \<and> outcome i s = None
          \<and> kind (calls s ! i) = FileWatch \<longrightarrow>
        outcome i (timerFired i (snd (cleanupDetection kt s)))
          = Some (Inr (FileWatchTimeout (timeoutMs (calls s ! i)) (w_path (calls s ! i)))))"
proof -
  let ?s' = "snd (cleanupDetection kt s)"
  have c: "calls ?s' = calls s" and t: "timers ?s' = timers s"
    by (simp_all add: cleanupDetection_state)
  have "\<forall>p \<in> set (watchers s). \<not> watched p ?s'"
    by (auto simp: cleanupDetection_state watched_def list_ex_iff)
  moreover have "\<forall>i. outcome i ?s' = outcome i s"
    by (simp add: outcome_def c)
  moreover have "\<forall>i. i < length (calls s) \<and> i \<in> set (timers s) \<and> outcome i s = None
          \<and> kind (calls s ! i) = FileWatch \<longrightarrow>
        outcome i (timerFired i ?s')
          = Some (Inr (FileWatchTimeout (timeoutMs (calls s ! i)) (w_path (calls s ! i))))"
  proof (intro allI impI)
    fix i
    assume a: "i < length (calls s) \<and> i \<in> set (timers s) \<and> outcome i s = None
          \<and> kind (calls s ! i) = FileWatch"
    then have "i < length (calls ?s')" "i \<in> set (timers ?s')" "outcome i ?s' = None"
      by (auto simp: c t outcome_def)
    from timerFired_outcome[OF this] a
    show "outcome i (timerFired i ?s')
          = Some (Inr (FileWatchTimeout (timeoutMs (calls s ! i)) (w_path (calls s ! i))))"
      by (simp add: c)
  qed
  ultimately show ?thesis
    by (simp add: cleanupDetection_state)
qed

text \<open>
  The theorem at a file watch for \<open>done\<close> on a file that does not exist yet, in flight
  when the sweep runs.
\<close>

theorem sweep_unregisters_without_delivering_witness:
  "watchers (snd (cleanupDetection (\<lambda>p. False)
       (snd (watchFile (\<lambda>p. Missing) ''/tmp/s'' (Some [''done'']) None initial)))) = []
   \<and> \<not> watched ''/tmp/s'' (snd (cleanupDetection (\<lambda>p. False)
       (snd (watchFile (\<lambda>p. Missing) ''/tmp/s'' (Some [''done'']) None initial))))
   \<and> outcome 0 (timerFired 0 (snd (cleanupDetection (\<lambda>p. False)
       (snd (watchFile (\<lambda>p. Missing) ''/tmp/s'' (Some [''done'']) None initial)))))
      = Some (Inr (FileWatchTimeout (Finite 30000) ''/tmp/s''))"
proof -
  let ?s = "snd (watchFile (\<lambda>p. Missing) ''/tmp/s'' (Some [''done'']) None initial)"
  have h: "''/tmp/s'' \<in> set (watchers ?s)" "0 < length (calls ?s)" "0 \<in> set (timers ?s)"
    "outcome 0 ?s = None" "kind (calls ?s ! 0) = FileWatch"
    "timeoutMs (calls ?s ! 0) = Finite 30000" "w_path (calls ?s ! 0) = ''/tmp/s''"
    by (simp_all add: run_defs)
  from sweep_unregisters_without_delivering[of "\<lambda>p. False" ?s] h show ?thesis by auto
qed

text \<open>
  C2 as stated fails: the watch above is pending before the sweep and still pending
  after it, with its timer armed. No outcome has been delivered to its caller, so none
  that says it was cancelled.
\<close>

theorem sweep_delivers_no_outcome_counterexample:
  "outcome 0 (snd (watchFile (\<lambda>p. Missing) ''/tmp/s'' (Some [''done'']) None initial)) = None
   \<and> outcome 0 (snd (cleanupDetection (\<lambda>p. False)
       (snd (watchFile (\<lambda>p. Missing) ''/tmp/s'' (Some [''done'']) None initial)))) = None
   \<and> timers (snd (cleanupDetection (\<lambda>p. False)
       (snd (watchFile (\<lambda>p. Missing) ''/tmp/s'' (Some [''done'']) None initial)))) = [0]"
  by (simp add: run_defs)

section \<open>C3: which pattern a watch reports\<close>

text \<open>
  C3 (as amended). The patterns a watch scans are the requested patterns, each trimmed of
  surrounding white space by the validation, in request order. For a pending watch with a
  non-empty validated list, the file check reports pattern \<open>p\<close> exactly when \<open>p\<close> is
  the first entry of that list, in list order, that occurs anywhere in the content read,
  and the pipe's data handler reports \<open>p\<close> exactly when \<open>p\<close> is the first entry, in
  list order, that occurs anywhere in the accumulated buffer; the position of the
  occurrences in the buffer plays no part.
\<close>

theorem scan_reports_first_validated_pattern:
  assumes "validatePatterns ps = Inr vps" and "vps \<noteq> []"
    and "i < length (calls s)" and "outcome i s = None"
    and "validatedPatterns (calls s ! i) = vps"
  shows "vps = map trim ps
    \<and> (fs (w_path (calls s ! i)) = Content c \<longrightarrow>
         (outcome i (checkFile fs i s) = Some (Inr (FilePatternFound p (w_path (calls s ! i))))
            \<longleftrightarrow> firstOccurring vps c p))
    \<and> (i \<in> set (streams s) \<longrightarrow>
         (outcome i (pipeData i chunk s) = Some (Inr (PipePatternFound p (w_path (calls s ! i))))
            \<longleftrightarrow> firstOccurring vps (buffer (calls s ! i) @ chunk) p))"
proof (intro conjI impI)
  show "vps = map trim ps" using assms(1) by (rule validatePatterns_trim)
next
  assume "fs (w_path (calls s ! i)) = Content c"
  then have "outcome i (checkFile fs i s) =
     (case scanPatterns vps c of
        None \<Rightarrow> None
      | Some p \<Rightarrow> Some (Inr (FilePatternFound p (w_path (calls s ! i)))))"
    using assms by (simp add: checkFile_reports)
  then show "outcome i (checkFile fs i s) = Some (Inr (FilePatternFound p (w_path (calls s ! i))))
            \<longleftrightarrow> firstOccurring vps c p"
    by (auto simp: scanPatterns_firstOccurring[symmetric] split: option.splits)
next
  assume "i \<in> set (streams s)"
  then have "outcome i (pipeData i chunk s) =
     (case scanPatterns vps (buffer (calls s ! i) @ chunk) of
        None \<Rightarrow> None
      | Some p \<Rightarrow> Some (Inr (PipePatternFound p (w_path (calls s ! i)))))"
    using assms by (simp add: pipeData_reports)
  then show "outcome i (pipeData i chunk s) = Some (Inr (PipePatternFound p (w_path (calls s ! i))))
            \<longleftrightarrow> firstOccurring vps (buffer (calls s ! i) @ chunk) p"
    by (auto simp: scanPatterns_firstOccurring[symmetric] split: option.splits)
qed

text \<open>
  The theorem at the example of the specification: a file watch for \<open>error:\<close> and
  \<open>complete:\<close>, started while the file is missing, then checked when the content has
  \<open>complete:\<close> before \<open>error:\<close>. The earlier pattern of the list is reported.
\<close>

theorem scan_reports_first_validated_pattern_witness:
  "validatePatterns [''error:'', ''complete:''] = Inr [''error:'', ''complete:'']
   \<and> outcome 0 (checkFile (\<lambda>p. Content ''complete:0 error:1'') 0
        (snd (watchFile (\<lambda>p. Missing) ''/tmp/s'' (Some [''error:'', ''complete:'']) None initial)))
      = Some (Inr (FilePatternFound ''error:'' ''/tmp/s''))
   \<and> firstOccurring [''error:'', ''complete:''] ''complete:0 error:1'' ''error:''"
proof -
  let ?s = "snd (watchFile (\<lambda>p. Missing) ''/tmp/s'' (Some [''error:'', ''complete:'']) None initial)"
  let ?fs = "\<lambda>p::string. Content ''complete:0 error:1''"
  have h1: "validatePatterns [''error:'', ''complete:''] = Inr [''error:'', ''complete:'']"
    by (simp add: run_defs)
  have h2: "[''error:'', ''complete:''] \<noteq> []" by simp
  have h3: "0 < length (calls ?s)" by (simp add: run_defs)
  have h4: "outcome 0 ?s = None" by (simp add: run_defs)
  have h5: "validatedPatterns (calls ?s ! 0) = [''error:'', ''complete:'']"
    by (simp add: run_defs)
  have h6: "?fs (w_path (calls ?s ! 0)) = Content ''complete:0 error:1''" by simp
  have h7: "w_path (calls ?s ! 0) = ''/tmp/s''" by (simp add: run_defs)
  have code: "outcome 0 (checkFile ?fs 0 ?s) = Some (Inr (FilePatternFound ''error:'' ''/tmp/s''))"
    by (simp add: run_defs)
  from scan_reports_first_validated_pattern[OF h1 h2 h3 h4 h5, of ?fs "''complete:0 error:1''"
      "''error:''"] h6 h7 code
  have "firstOccurring [''error:'', ''complete:''] ''complete:0 error:1'' ''error:''"
    by simp
  with h1 code show ?thesis by simp
qed

text \<open>
  C3 as stated fails where a requested pattern has surrounding white space: for the request
  \<open>[" x", "y"]\<close> and the content \<open>yx\<close> the watch reports \<open>x\<close>, which is not a
  requested pattern that occurs in the content; the first requested pattern that occurs
  is \<open>y\<close>.
\<close>

theorem reported_pattern_is_trimmed_counterexample:
  "outcome 0 (snd (watchFile (\<lambda>p. Content ''yx'') ''/tmp/s'' (Some ['' x'', ''y'']) None initial))
     = Some (Inr (FilePatternFound ''x'' ''/tmp/s''))
   \<and> \<not> firstOccurring ['' x'', ''y''] ''yx'' ''x''
   \<and> firstOccurring ['' x'', ''y''] ''yx'' ''y''"
  by (simp add: scanPatterns_firstOccurring[symmetric] run_defs)

section \<open>C4: a watch with no patterns\<close>

lemma checkFile_no_patterns:
  assumes "i < length (calls s)" and "outcome i s = None"
    and "validatedPatterns (calls s ! i) = []" and "fs (w_path (calls s ! i)) = Content c"
  shows "outcome i (checkFile fs i s) = Some (Inr (FileDetected (w_path (calls s ! i))))"
  using assms by (simp add: checkFile_def Let_def outcome_settle outcome_cleanup calls_cleanup)

lemma watchFile_present_no_patterns:
  assumes "\<not> invalidPath path" and "\<not> js_lt t 100" and "\<not> js_gt t 300000"
    and "fs path = Content c"
  shows "outcome (length (calls s)) (snd (watchFile fs path (Some []) (Some t) s))
           = Some (Inr (FileDetected path))"
proof -
  let ?i = "length (calls s)"
  let ?w = "\<lparr>kind = FileWatch, w_path = path, validatedPatterns = [], timeoutMs = t,
             buffer = [], found = False, promise = None\<rparr>"
  let ?s1 = "s\<lparr>calls := calls s @ [?w], timers := timers s @ [?i]\<rparr>"
  let ?s2 = "checkFile fs ?i ?s1"
  have c: "calls ?s1 ! ?i = ?w" "?i < length (calls ?s1)" by simp_all
  have "outcome ?i ?s1 = None" by (simp add: outcome_def)
  from checkFile_no_patterns[where fs=fs and c=c, OF c(2) this] assms(4)
  have o: "outcome ?i ?s2 = Some (Inr (FileDetected path))" by (simp add: c)
  have "snd (watchFile fs path (Some []) (Some t) s) =
      ?s2\<lparr>statWatchers := statWatchers ?s2 @ [(path, ?i)],
           watchers := mapSet path (watchers (?s2\<lparr>statWatchers := statWatchers ?s2 @ [(path, ?i)]\<rparr>))\<rparr>"
    using assms(1,2,3) by (simp add: watchFile_def Let_def orDefault_def)
  then have "calls (snd (watchFile fs path (Some []) (Some t) s)) = calls ?s2" by simp
  then have "outcome ?i (snd (watchFile fs path (Some []) (Some t) s)) = outcome ?i ?s2"
    by (simp only: outcome_def)
  then show ?thesis by (simp only: o)
qed

lemma pipeData_no_patterns:
  assumes "i < length (calls s)" and "validatedPatterns (calls s ! i) = []"
  shows "pipeData i chunk s =
     (if i \<in> set (streams s)
      then s\<lparr>calls := (calls s)[i := (calls s ! i)\<lparr>buffer := buffer (calls s ! i) @ chunk\<rparr>]\<rparr>
      else s)"
  using assms by (simp add: pipeData_def Let_def)

lemma fold_pipeData_no_patterns:
  assumes "i < length (calls s)" and "validatedPatterns (calls s ! i) = []"
  shows "fold (pipeData i) chunks s =
     (if i \<in> set (streams s)
      then s\<lparr>calls := (calls s)[i := (calls s ! i)\<lparr>buffer := buffer (calls s ! i) @ concat chunks\<rparr>]\<rparr>
      else s)"
  using assms
proof (induction chunks arbitrary: s)
  case Nil
  then show ?case by simp
next
  case (Cons chunk chunks)
  show ?case
  proof (cases "i \<in> set (streams s)")
    case False
    then have "pipeData i chunk s = s" by (simp add: pipeData_def)
    then show ?thesis using Cons False by simp
  next
    case True
    let ?s1 = "s\<lparr>calls := (calls s)[i := (calls s ! i)\<lparr>buffer := buffer (calls s ! i) @ chunk\<rparr>]\<rparr>"
    have s1: "pipeData i chunk s = ?s1"
      using Cons.prems True by (simp add: pipeData_no_patterns)
    have p: "i < length (calls ?s1)" "validatedPatterns (calls ?s1 ! i) = []"
      using Cons.prems by simp_all
    show ?thesis
      using Cons.IH[OF p] True Cons.prems by (simp add: s1)
  qed
qed

text \<open>
  C4 (as amended). For a pending watch whose pattern list is empty: the file check
  resolves it with "File detected" as soon as the file is there and readable, at a
  change or, for a file watch that starts with valid arguments, at the immediate check;
  on a pipe, chunks of data only grow the buffer, so after any sequence of chunks the
  watch is still pending with its timer armed, and it resolves successfully only when
  the stream ends.
\<close>

theorem empty_patterns_file_resolves_pipe_waits_for_end:
  assumes "i < length (calls s)" and "outcome i s = None"
    and "validatedPatterns (calls s ! i) = []"
  shows "(fs (w_path (calls s ! i)) = Content c \<longrightarrow>
            outcome i (checkFile fs i s) = Some (Inr (FileDetected (w_path (calls s ! i)))))
    \<and> (\<not> invalidPath path \<and> \<not> js_lt t 100 \<and> \<not> js_gt t 300000 \<and> fs path = Content c \<longrightarrow>
         outcome (length (calls s)) (snd (watchFile fs path (Some []) (Some t) s))
           = Some (Inr (FileDetected path)))
    \<and> outcome i (fold (pipeData i) chunks s) = None
    \<and> timers (fold (pipeData i) chunks s) = timers s
    \<and> (i \<in> set (streams s) \<longrightarrow>
         outcome i (pipeEnd i (fold (pipeData i) chunks s))
           = Some (Inr (PipeEOF (w_path (calls s ! i)) (found (calls s ! i)))))"
proof (intro conjI impI)
  assume "fs (w_path (calls s ! i)) = Content c"
  then show "outcome i (checkFile fs i s) = Some (Inr (FileDetected (w_path (calls s ! i))))"
    using assms by (simp add: checkFile_no_patterns)
next
  assume "\<not> invalidPath path \<and> \<not> js_lt t 100 \<and> \<not> js_gt t 300000 \<and> fs path = Content c"
  then show "outcome (length (calls s)) (snd (watchFile fs path (Some []) (Some t) s))
           = Some (Inr (FileDetected path))"
    by (simp add: watchFile_present_no_patterns[where fs=fs and c=c])
next
  show "outcome i (fold (pipeData i) chunks s) = None"
    using assms by (auto simp: fold_pipeData_no_patterns outcome_def)
next
  show "timers (fold (pipeData i) chunks s) = timers s"
    using assms by (simp add: fold_pipeData_no_patterns)
next
  assume st: "i \<in> set (streams s)"
  let ?s1 = "fold (pipeData i) chunks s"
  have f: "?s1 = s\<lparr>calls := (calls s)[i := (calls s ! i)\<lparr>buffer := buffer (calls s ! i) @ concat chunks\<rparr>]\<rparr>"
    using assms st by (simp add: fold_pipeData_no_patterns)
  let ?s2 = "?s1\<lparr>streams := removeAll i (streams ?s1)\<rparr>"
  have "i < length (calls (cleanup i ?s2))" using assms(1) by (simp add: calls_cleanup f)
  moreover have "outcome i (cleanup i ?s2) = None"
    using assms(1,2) by (simp add: outcome_cleanup) (simp add: outcome_def f)
  ultimately have "outcome i (settle i (Inr (PipeEOF (w_path (calls ?s1 ! i)) (found (calls ?s1 ! i))))
      (cleanup i ?s2)) = Some (Inr (PipeEOF (w_path (calls ?s1 ! i)) (found (calls ?s1 ! i))))"
    by (rule outcome_settle)
  moreover have "pipeEnd i ?s1 = settle i (Inr (PipeEOF (w_path (calls ?s1 ! i)) (found (calls ?s1 ! i))))
      (cleanup i ?s2)"
    using assms(1) st by (simp add: pipeEnd_def Let_def f)
  moreover have "w_path (calls ?s1 ! i) = w_path (calls s ! i)" "found (calls ?s1 ! i) = found (calls s ! i)"
    using assms(1) by (simp_all add: f)
  ultimately show "outcome i (pipeEnd i ?s1) = Some (Inr (PipeEOF (w_path (calls s ! i)) (found (calls s ! i))))"
    by simp
qed

text \<open>
  The theorem at a file watch and a pipe watch, each started with an empty pattern list:
  the file check resolves the first, as the immediate check does for a watch started
  when the file is there; two chunks leave the second pending, and the end of the stream
  resolves it.
\<close>

theorem empty_patterns_file_resolves_pipe_waits_for_end_witness:
  "outcome 0 (checkFile (\<lambda>p. Content ''running'') 0
      (snd (watchFile (\<lambda>p. Missing) ''/tmp/s'' (Some []) None initial)))
     = Some (Inr (FileDetected ''/tmp/s''))
   \<and> outcome 1 (snd (watchFile (\<lambda>p. Content ''running'') ''/tmp/s'' (Some []) (Some (Finite 5000))
        (snd (watchFile (\<lambda>p. Missing) ''/tmp/s'' (Some []) None initial))))
     = Some (Inr (FileDetected ''/tmp/s''))
   \<and> outcome 0 (fold (pipeData 0) [''processing'', ''DONE'']
      (snd (watchPipe (\<lambda>p. Content []) ''/tmp/p'' (Some []) None initial))) = None
   \<and> outcome 0 (pipeEnd 0 (fold (pipeData 0) [''processing'', ''DONE'']
      (snd (watchPipe (\<lambda>p. Content []) ''/tmp/p'' (Some []) None initial))))
     = Some (Inr (PipeEOF ''/tmp/p'' False))"
proof -
  let ?f = "snd (watchFile (\<lambda>p. Missing) ''/tmp/s'' (Some []) None initial)"
  let ?p = "snd (watchPipe (\<lambda>p. Content []) ''/tmp/p'' (Some []) None initial)"
  have f: "0 < length (calls ?f)" "outcome 0 ?f = None" "validatedPatterns (calls ?f ! 0) = []"
    "w_path (calls ?f ! 0) = ''/tmp/s''"
    by (simp_all add: run_defs)
  have p: "0 < length (calls ?p)" "outcome 0 ?p = None" "validatedPatterns (calls ?p ! 0) = []"
    "w_path (calls ?p ! 0) = ''/tmp/p''" "found (calls ?p ! 0) = False" "0 \<in> set (streams ?p)"
    by (simp_all add: run_defs)
  have g: "\<not> invalidPath ''/tmp/s''" "\<not> js_lt (Finite 5000) 100"
    "\<not> js_gt (Finite 5000) 300000" "length (calls ?f) = 1"
    by (simp_all add: run_defs)
  from empty_patterns_file_resolves_pipe_waits_for_end[where fs="\<lambda>p. Content ''running''"
      and c="''running''" and path="''/tmp/s''" and t="Finite 5000", OF f(1,2,3)]
  have "outcome 0 (checkFile (\<lambda>p. Content ''running'') 0 ?f) = Some (Inr (FileDetected ''/tmp/s''))"
    "outcome 1 (snd (watchFile (\<lambda>p. Content ''running'') ''/tmp/s'' (Some []) (Some (Finite 5000)) ?f))
       = Some (Inr (FileDetected ''/tmp/s''))"
    using f(4) g by simp_all
  moreover from empty_patterns_file_resolves_pipe_waits_for_end[where
      chunks="[''processing'', ''DONE'']", OF p(1,2,3)] p(4,5,6)
  have "outcome 0 (fold (pipeData 0) [''processing'', ''DONE''] ?p) = None"
    "outcome 0 (pipeEnd 0 (fold (pipeData 0) [''processing'', ''DONE''] ?p))
       = Some (Inr (PipeEOF ''/tmp/p'' False))"
    by simp_all
  ultimately show ?thesis by simp
qed

text \<open>
  C4 as stated fails on a pipe: a pipe watch started with an empty pattern list has
  observed the chunk \<open>hello\<close> and is still pending, its timer armed.
\<close>

theorem empty_patterns_pipe_chunk_counterexample:
  "outcome 0 (pipeData 0 ''hello''
      (snd (watchPipe (\<lambda>p. Content []) ''/tmp/p'' (Some []) None initial))) = None
   \<and> buffer (calls (pipeData 0 ''hello''
      (snd (watchPipe (\<lambda>p. Content []) ''/tmp/p'' (Some []) None initial))) ! 0) = ''hello''
   \<and> timers (pipeData 0 ''hello''
      (snd (watchPipe (\<lambda>p. Content []) ''/tmp/p'' (Some []) None initial))) = [0]"
  by (simp add: run_defs)

section \<open>C5: a target that does not exist at watch start\<close>

lemma watchFile_missing:
  assumes "\<not> invalidPath path" and "\<not> js_lt t 100" and "\<not> js_gt t 300000"
    and "validatePatterns (orDefault patterns []) = Inr vps" and "fs path = Missing"
  shows "watchFile fs path patterns (Some t) s =
     (Inr (length (calls s)),
      s\<lparr>calls := calls s @ [\<lparr>kind = FileWatch, w_path = path, validatedPatterns = vps,
            timeoutMs = t, buffer = [], found = False, promise = None\<rparr>],
        timers := timers s @ [length (calls s)],
        statWatchers := statWatchers s @ [(path, length (calls s))],
        watchers := mapSet path (watchers s)\<rparr>)"
  using assms by (simp add: watchFile_def Let_def orDefault_def checkFile_def)

lemma watchPipe_missing:
  assumes "\<not> invalidPath path" and "\<not> js_lt t 100" and "\<not> js_gt t 300000"
    and "validatePatterns (orDefault patterns []) = Inr vps" and "fs path = Missing"
  shows "fst (watchPipe fs path patterns (Some t) s) = Inr (length (calls s))"
    and "outcome (length (calls s)) (snd (watchPipe fs path patterns (Some t) s))
          = Some (Inl (ValidationError (''Pipe does not exist: '' @ path)))"
    and "streams (snd (watchPipe fs path patterns (Some t) s)) = streams s"
  using assms
  by (simp_all add: watchPipe_def Let_def orDefault_def cleanup_def unwatchFile_def settle_def
      outcome_def nth_append)

text \<open>
  C5 (as amended). With valid arguments and a target path that does not exist: a file
  watch does not fail. It returns a pending call, registered, listening and with its timer
  armed, and when the listener later finds the file there it resolves as any file check
  does (a detected file for an empty pattern list, the first validated pattern that
  occurs otherwise, and pending when none occurs); when its timer fires first it
  resolves with the timeout response. A pipe watch is rejected at start with
  the error "Pipe does not exist", and no stream is opened. Neither writes to the file
  system, which both only read.
\<close>

theorem missing_file_is_awaited_missing_pipe_rejected:
  assumes "\<not> invalidPath path" and "\<not> js_lt t 100" and "\<not> js_gt t 300000"
    and "validatePatterns (orDefault patterns []) = Inr vps" and "fs path = Missing"
  shows "fst (watchFile fs path patterns (Some t) s) = Inr (length (calls s))
    \<and> outcome (length (calls s)) (snd (watchFile fs path patterns (Some t) s)) = None
    \<and> path \<in> set (watchers (snd (watchFile fs path patterns (Some t) s)))
    \<and> (path, length (calls s)) \<in> set (statWatchers (snd (watchFile fs path patterns (Some t) s)))
    \<and> length (calls s) \<in> set (timers (snd (watchFile fs path patterns (Some t) s)))
    \<and> (later path = Content c \<longrightarrow>
         outcome (length (calls s))
           (statChanged later (length (calls s)) True (snd (watchFile fs path patterns (Some t) s)))
         = (if vps = [] then Some (Inr (FileDetected path))
            else (case scanPatterns vps c of
                    None \<Rightarrow> None
                  | Some p \<Rightarrow> Some (Inr (FilePatternFound p path)))))
    \<and> outcome (length (calls s))
          (timerFired (length (calls s)) (snd (watchFile fs path patterns (Some t) s)))
        = Some (Inr (FileWatchTimeout t path))
    \<and> fst (watchPipe fs path patterns (Some t) s) = Inr (length (calls s))
    \<and> outcome (length (calls s)) (snd (watchPipe fs path patterns (Some t) s))
         = Some (Inl (ValidationError (''Pipe does not exist: '' @ path)))
    \<and> streams (snd (watchPipe fs path patterns (Some t) s)) = streams s"
proof -
  let ?i = "length (calls s)"
  let ?sf = "snd (watchFile fs path patterns (Some t) s)"
  note wf = watchFile_missing[where fs=fs and path=path and s=s, OF assms]
  have sf: "calls ?sf ! ?i = \<lparr>kind = FileWatch, w_path = path, validatedPatterns = vps,
            timeoutMs = t, buffer = [], found = False, promise = None\<rparr>"
     "length (calls ?sf) = Suc ?i" "(path, ?i) \<in> set (statWatchers ?sf)"
     "path \<in> set (watchers ?sf)" "?i \<in> set (timers ?sf)"
    by (simp_all add: wf mapSet_def)
  have pending: "outcome ?i ?sf = None" by (simp add: outcome_def sf)
  have later: "outcome ?i (statChanged later ?i True ?sf)
         = (if vps = [] then Some (Inr (FileDetected path))
            else (case scanPatterns vps c of
                    None \<Rightarrow> None
                  | Some p \<Rightarrow> Some (Inr (FilePatternFound p path))))"
    if l: "later path = Content c"
  proof -
    have lt: "?i < length (calls ?sf)" by (simp add: sf)
    have sc: "statChanged later ?i True ?sf = checkFile later ?i ?sf"
      by (simp add: statChanged_def sf)
    have lp: "later (w_path (calls ?sf ! ?i)) = Content c" by (simp add: sf l)
    have vp: "validatedPatterns (calls ?sf ! ?i) = vps" by (simp add: sf)
    show ?thesis
    proof (cases "vps = []")
      case True
      from checkFile_no_patterns[where fs=later and c=c, OF lt pending _ lp] vp True show ?thesis
        by (simp add: sc sf)
    next
      case False
      from checkFile_reports[where fs=later and c=c, OF lt pending vp False lp] False show ?thesis
        by (simp add: sc sf split: option.splits)
    qed
  qed
  have lt: "?i < length (calls ?sf)" by (simp add: sf)
  have fired: "outcome ?i (timerFired ?i ?sf) = Some (Inr (FileWatchTimeout t path))"
    using timerFired_outcome[OF lt sf(5) pending] by (simp add: sf)
  show ?thesis
    using sf pending later fired
      watchPipe_missing[where fs=fs and path=path and s=s, OF assms]
    by (simp add: wf)
qed

text \<open>
  The theorem at a status file that does not exist yet: the file watch waits, and is
  resolved by the file appearing or by its timer; the pipe watch is rejected.
\<close>

theorem missing_file_is_awaited_missing_pipe_rejected_witness:
  "fst (watchFile (\<lambda>p. Missing) ''/tmp/llm-status-job'' (Some [''complete:'']) (Some (Finite 5000)) initial) = Inr 0
   \<and> outcome 0 (snd (watchFile (\<lambda>p. Missing) ''/tmp/llm-status-job'' (Some [''complete:'']) (Some (Finite 5000)) initial)) = None
   \<and> outcome 0 (statChanged (\<lambda>p. Content ''complete:0'') 0 True
        (snd (watchFile (\<lambda>p. Missing) ''/tmp/llm-status-job'' (Some [''complete:'']) (Some (Finite 5000)) initial)))
      = Some (Inr (FilePatternFound ''complete:'' ''/tmp/llm-status-job''))
   \<and> outcome 0 (timerFired 0
        (snd (watchFile (\<lambda>p. Missing) ''/tmp/llm-status-job'' (Some [''complete:'']) (Some (Finite 5000)) initial)))
      = Some (Inr (FileWatchTimeout (Finite 5000) ''/tmp/llm-status-job''))
   \<and> outcome 0 (snd (watchPipe (\<lambda>p. Missing) ''/tmp/llm-status-job'' (Some [''complete:'']) (Some (Finite 5000)) initial))
      = Some (Inl (ValidationError ''Pipe does not exist: /tmp/llm-status-job''))"
proof -
  have h: "\<not> invalidPath ''/tmp/llm-status-job''" "\<not> js_lt (Finite 5000) 100" "\<not> js_gt (Finite 5000) 300000"
    "validatePatterns (orDefault (Some [''complete:'']) []) = Inr [''complete:'']"
    "(\<lambda>p::string. Missing) ''/tmp/llm-status-job'' = Missing"
    by (simp_all add: run_defs)
  have l: "(\<lambda>p::string. Content ''complete:0'') ''/tmp/llm-status-job'' = Content ''complete:0''" by simp
  from missing_file_is_awaited_missing_pipe_rejected[where fs="\<lambda>p. Missing" and path="''/tmp/llm-status-job''" and s=initial
      and later="\<lambda>p. Content ''complete:0''" and c="''complete:0''", OF h] l
  show ?thesis by (simp add: initial_def)
qed

text \<open>
  C5 as stated fails: a file watch on a path that does not exist is accepted and stays
  pending, registered and with its timer armed, and it resolves when the file appears.
\<close>

theorem missing_file_not_rejected_counterexample:
  "fst (watchFile (\<lambda>p. Missing) ''/tmp/s'' None None initial) = Inr 0
   \<and> outcome 0 (snd (watchFile (\<lambda>p. Missing) ''/tmp/s'' None None initial)) = None
   \<and> watchers (snd (watchFile (\<lambda>p. Missing) ''/tmp/s'' None None initial)) = [''/tmp/s'']
   \<and> timers (snd (watchFile (\<lambda>p. Missing) ''/tmp/s'' None None initial)) = [0]
   \<and> outcome 0 (statChanged (\<lambda>p. Content ''x'') 0 True
        (snd (watchFile (\<lambda>p. Missing) ''/tmp/s'' None None initial)))
      = Some (Inr (FileDetected ''/tmp/s''))"
  by (simp add: run_defs)

section \<open>C6: the status file of a wrapper run that times out\<close>

text \<open>
  C6 (the code at the failing input). The wrapper generated for the name \<open>job\<close> and the
  command \<open>sleep 100\<close> with a timeout of one second, run until \<open>timeout\<close> ends the
  command with status 124. The script writes \<open>running\<close> first. In the timeout branch
  it appends \<open>timeout\<close> and a log line below it, so the first line of the status file
  stays \<open>running\<close> after every write; where \<open>wait\<close> reports a status other than 0
  these four writes are all there is. Were \<open>wait\<close> to report 0, the first line would
  go on to \<open>complete:0\<close>. At no moment is the first line \<open>timeout\<close>.
\<close>

theorem timeout_status_is_appended_below_running:
  "fst (createLLMWrapper None ''job'' ''sleep 100'' None (Some (Finite 1000)))
     = [(''/tmp/llm-wrapper-job.sh'',
         \<lparr>WRAPPER_NAME = ''job'', STATUS_FILE = ''/tmp/llm-status-job'',
          MARKER = ''<<<LLM_COMPLETE>>>'', TIMEOUT_MS = Finite 1000,
          wrappedCommand = ''sleep 100''\<rparr>)]
   \<and> statusWrites date 124 (Suc k)
     = [(Truncate, ''running''), (Append, date 0 @ '': Starting LLM query''),
        (Append, ''timeout''), (Append, date 1 @ '': LLM query timed out'')]
   \<and> map canonical (history (statusWrites date 124 (Suc k)) file)
     = [Some ''running'', Some ''running'', Some ''running'', Some ''running'']
   \<and> map canonical (history (statusWrites date 124 0) file)
     = [Some ''running'', Some ''running'', Some ''running'', Some ''running'',
        Some ''complete:0'', Some ''complete:0'']"
  by (simp add: statusWrites_def showNat.simps digitChar_def createLLMWrapper_def
      validateCommand_def dangerousPatterns_def dangerousChar_def matchRmRf_def
      matchPipeToShell_def run_defs)

section \<open>C7: the bounds on timeouts\<close>

text \<open>
  C7. A watch (of a pipe or of a file) whose timeout is below 100 or above 300000 is
  rejected with a validation error and the state is untouched: no call, timer, stream,
  listener or registry entry exists that did not before. A piped command whose timeout
  is below 1000 or above 600000 is rejected with a validation error and the state is
  untouched, so nothing has been spawned or recorded.
\<close>

theorem timeout_out_of_bounds_rejected_before_resources:
  "((js_lt t 100 \<or> js_gt t 300000) \<longrightarrow>
       (\<exists>m. watchPipe fs path patterns (Some t) s = (Inl (ValidationError m), s))
     \<and> (\<exists>m. watchFile fs path patterns (Some t) s = (Inl (ValidationError m), s)))
   \<and> ((js_lt t 1000 \<or> js_gt t 600000) \<longrightarrow>
       (\<exists>m. pipeWithTimeout newId spawnThrows command targetPipe (Some t) s
              = (Inl (ValidationError m), s)))"
  by (auto simp: watchPipe_def watchFile_def pipeWithTimeout_def Let_def orDefault_def)

text \<open>
  The theorem at the timeouts 99 and 300001 for the watchers and 999 for a piped command,
  all other arguments valid: the error is the one of the timeout check.
\<close>

theorem timeout_out_of_bounds_rejected_before_resources_witness:
  "js_lt (Finite 99) 100 \<and> js_gt (Finite 300001) 300000
   \<and> watchPipe (\<lambda>p. Content []) ''/tmp/p'' None (Some (Finite 99)) initial
        = (Inl (ValidationError ''Timeout must be between 100ms and 300000ms (5 minutes)''), initial)
   \<and> watchFile (\<lambda>p. Content []) ''/tmp/s'' None (Some (Finite 300001)) initial
        = (Inl (ValidationError ''Timeout must be between 100ms and 300000ms (5 minutes)''), initial)
   \<and> js_lt (Finite 999) 1000
   \<and> pipeWithTimeout ''pipe-1-abc'' None ''sleep 10'' ''/tmp/p'' (Some (Finite 999)) initial
        = (Inl (ValidationError ''Timeout must be between 1000ms and 600000ms (10 minutes)''), initial)"
proof -
  have a: "js_lt (Finite 99) 100 \<or> js_gt (Finite 99) 300000"
    and b: "js_lt (Finite 300001) 100 \<or> js_gt (Finite 300001) 300000"
    and c: "js_lt (Finite 999) 1000 \<or> js_gt (Finite 999) 600000"
    by simp_all
  from timeout_out_of_bounds_rejected_before_resources[of "Finite 99" "\<lambda>p. Content []" "''/tmp/p''" None initial] a
  obtain m1 where m1: "watchPipe (\<lambda>p. Content []) ''/tmp/p'' None (Some (Finite 99)) initial
        = (Inl (ValidationError m1), initial)" by blast
  from timeout_out_of_bounds_rejected_before_resources[of "Finite 300001" "\<lambda>p. Content []" "''/tmp/s''" None initial] b
  obtain m2 where m2: "watchFile (\<lambda>p. Content []) ''/tmp/s'' None (Some (Finite 300001)) initial
        = (Inl (ValidationError m2), initial)" by blast
  from timeout_out_of_bounds_rejected_before_resources[of "Finite 999" _ _ _ initial "''pipe-1-abc''" None "''sleep 10''" "''/tmp/p''"] c
  obtain m3 where m3: "pipeWithTimeout ''pipe-1-abc'' None ''sleep 10'' ''/tmp/p'' (Some (Finite 999)) initial
        = (Inl (ValidationError m3), initial)" by blast
  have "m1 = ''Timeout must be between 100ms and 300000ms (5 minutes)''"
    using m1 by (simp add: run_defs)
  moreover have "m2 = ''Timeout must be between 100ms and 300000ms (5 minutes)''"
    using m2 by (simp add: run_defs)
  moreover have "m3 = ''Timeout must be between 1000ms and 600000ms (10 minutes)''"
    using m3 by (simp add: pipeWithTimeout_def validateCommand_def dangerousPatterns_def
        dangerousChar_def matchRmRf_def matchPipeToShell_def run_defs)
  ultimately show ?thesis using m1 m2 m3 by simp
qed

section \<open>C8: the process-status query\<close>

lemma trim_Nil: "trim [] = []" by (simp add: trim_def)

text \<open>
  C8 (as amended). A query whose identifier is NaN, not above 0 or above 4194304 is
  rejected with the validation error "Invalid PID" and nothing is probed. A query with a
  valid identifier and an interval hint outside 100 to 10000 is rejected with the
  validation error "Interval must be between 100ms and 10000ms" and nothing is probed.
  A query with a valid identifier and an interval hint within 100 to 10000 (1000 when
  none is given) probes that identifier once and returns a response normally, and the
  response is a NotFound one whenever the probe finds no process. Rejection is an error
  and NotFound a response, so the two are distinct.
\<close>

theorem pollProcess_validates_then_reports:
  "((isNaN (pidNumOf pid) \<or> js_le (pidNumOf pid) 0 \<or> js_gt (pidNumOf pid) 4194304) \<longrightarrow>
      pollProcess ps pid iv
        = ([], Inl (ValidationError ''Invalid PID: must be a positive integer'')))
   \<and> (\<not> (isNaN (pidNumOf pid) \<or> js_le (pidNumOf pid) 0 \<or> js_gt (pidNumOf pid) 4194304) \<longrightarrow>
        ((js_lt (orDefault iv (Finite 1000)) 100 \<or> js_gt (orDefault iv (Finite 1000)) 10000) \<longrightarrow>
           pollProcess ps pid iv
             = ([], Inl (ValidationError ''Interval must be between 100ms and 10000ms'')))
      \<and> (\<not> (js_lt (orDefault iv (Finite 1000)) 100 \<or> js_gt (orDefault iv (Finite 1000)) 10000) \<longrightarrow>
           (\<exists>r. pollProcess ps pid iv = ([pidNumOf pid], Inr r)
                \<and> (notRunning (ps (pidNumOf pid)) \<longrightarrow> isNotFound r))))"
proof -
  have p: "(case pid of PidString str \<Rightarrow> parseInt str | PidNumber n \<Rightarrow> n) = pidNumOf pid"
    by (cases pid) simp_all
  show ?thesis
    unfolding pollProcess_def Let_def p
    by (auto simp: execAsync_def notRunning_def trim_Nil split: execResult.splits)
qed

text \<open>
  The theorem at the identifiers 0, \<open>"-7"\<close> and 4194305 (rejected) and at 999999 with
  no process (NotFound, for a failing probe and for an empty one).
\<close>

theorem pollProcess_validates_then_reports_witness:
  "pollProcess (\<lambda>n. Failed ''ps exited with code 1'') (PidNumber (Finite 0)) None
     = ([], Inl (ValidationError ''Invalid PID: must be a positive integer''))
   \<and> pollProcess (\<lambda>n. Failed ''ps exited with code 1'') (PidString ''-7'') None
     = ([], Inl (ValidationError ''Invalid PID: must be a positive integer''))
   \<and> pollProcess (\<lambda>n. Failed ''ps exited with code 1'') (PidNumber (Finite 4194305)) None
     = ([], Inl (ValidationError ''Invalid PID: must be a positive integer''))
   \<and> (\<exists>r. pollProcess (\<lambda>n. Failed ''ps exited with code 1'') (PidNumber (Finite 999999)) None
            = ([Finite 999999], Inr r) \<and> isNotFound r)
   \<and> (\<exists>r. pollProcess (\<lambda>n. Exited [] []) (PidNumber (Finite 999999)) (Some (Finite 100))
            = ([Finite 999999], Inr r) \<and> isNotFound r)"
proof -
  let ?ps = "\<lambda>n::jsnumber. Failed ''ps exited with code 1''"
  let ?qs = "\<lambda>n::jsnumber. Exited [] []"
  have "pollProcess ?ps (PidNumber (Finite 0)) None
     = ([], Inl (ValidationError ''Invalid PID: must be a positive integer''))"
    using pollProcess_validates_then_reports[of "PidNumber (Finite 0)" ?ps None] by simp
  moreover have "pollProcess ?ps (PidString ''-7'') None
     = ([], Inl (ValidationError ''Invalid PID: must be a positive integer''))"
    using pollProcess_validates_then_reports[of "PidString ''-7''" ?ps None]
    by (simp add: parseInt_def isWhiteSpace_def radixDigit_def digitValue_def digitsValue_def Let_def)
  moreover have "pollProcess ?ps (PidNumber (Finite 4194305)) None
     = ([], Inl (ValidationError ''Invalid PID: must be a positive integer''))"
    using pollProcess_validates_then_reports[of "PidNumber (Finite 4194305)" ?ps None] by simp
  moreover have "\<exists>r. pollProcess ?ps (PidNumber (Finite 999999)) None
            = ([Finite 999999], Inr r) \<and> isNotFound r"
    using pollProcess_validates_then_reports[of "PidNumber (Finite 999999)" ?ps None]
    by (simp add: orDefault_def notRunning_def)
  moreover have "\<exists>r. pollProcess ?qs (PidNumber (Finite 999999)) (Some (Finite 100))
            = ([Finite 999999], Inr r) \<and> isNotFound r"
    using pollProcess_validates_then_reports[of "PidNumber (Finite 999999)" ?qs "Some (Finite 100)"]
    by (simp add: orDefault_def notRunning_def trim_Nil)
  ultimately show ?thesis by simp
qed

text \<open>
  C8 as stated fails: the identifier 1234 is valid, and the query with the interval hint
  50 raises a validation error instead of returning a result.
\<close>

theorem valid_pid_bad_interval_raises_counterexample:
  "\<not> (isNaN (Finite 1234) \<or> js_le (Finite 1234) 0 \<or> js_gt (Finite 1234) 4194304)
   \<and> pollProcess (\<lambda>n. Failed ''ps exited with code 1'') (PidNumber (Finite 1234)) (Some (Finite 50))
     = ([], Inl (ValidationError ''Interval must be between 100ms and 10000ms''))"
  by (simp add: pollProcess_def orDefault_def)

section \<open>C9: the name of a named pipe\<close>

lemma createNamedPipe_rejects_iff:
  "(\<exists>m. createNamedPipe sh pipeName modeOpt
           = ([], Inl (ValidationError (''Invalid pipe name: '' @ m))))
     \<longleftrightarrow> \<not> valid (validateString pipeName ''pipe name'' 64)"
  by (auto simp: createNamedPipe_def Let_def dquote_def split: sum.splits)

text \<open>
  C9. The operation rejects a name with the error "Invalid pipe name" exactly when
  \<open>validateString\<close> does not accept it, and it does so for the empty name and for
  every name of more than 64 code units. For every name that is not empty, has at most
  64 code units and no surrounding white space, whatever characters it is made of, and
  an octal mode (given, or the default), validation succeeds: the name is placed as it
  is, between double quotes, in the one command handed to the shell, and the result is
  what the shell makes of that command, the created pipe or the failure to create it.
\<close>

theorem createNamedPipe_interpolates_unchecked_name:
  "((\<exists>m. createNamedPipe sh pipeName modeOpt
           = ([], Inl (ValidationError (''Invalid pipe name: '' @ m))))
      \<longleftrightarrow> \<not> valid (validateString pipeName ''pipe name'' 64))
   \<and> (pipeName = [] \<or> length pipeName > 64 \<longrightarrow>
        createNamedPipe sh pipeName modeOpt
          = ([], Inl (ValidationError (''Invalid pipe name: ''
                @ join '', '' (errors (validateString pipeName ''pipe name'' 64))))))
   \<and> (pipeName \<noteq> [] \<and> length pipeName \<le> 64 \<and> trim pipeName = pipeName
        \<and> octalMode (orDefault modeOpt ''0666'') \<longrightarrow>
        createNamedPipe sh pipeName modeOpt
          = ([''mkfifo -m '' @ orDefault modeOpt ''0666'' @ '' '' @ dquote
                @ ''/tmp/zellij-pipe-'' @ pipeName @ dquote],
             case execAsync (sh (''mkfifo -m '' @ orDefault modeOpt ''0666'' @ '' '' @ dquote
                                   @ ''/tmp/zellij-pipe-'' @ pipeName @ dquote)) of
               Inl e \<Rightarrow> Inl (ValidationError (''Failed to create named pipe: '' @ errorMessage e))
             | Inr (out, err) \<Rightarrow>
                 Inr (NamedPipeCreated (''/tmp/zellij-pipe-'' @ pipeName)
                        (orDefault modeOpt ''0666'') out)))"
proof (intro conjI impI)
  show "(\<exists>m. createNamedPipe sh pipeName modeOpt
           = ([], Inl (ValidationError (''Invalid pipe name: '' @ m))))
      \<longleftrightarrow> \<not> valid (validateString pipeName ''pipe name'' 64)"
    by (rule createNamedPipe_rejects_iff)
next
  assume "pipeName = [] \<or> length pipeName > 64"
  then have "\<not> valid (validateString pipeName ''pipe name'' 64)"
    by (auto simp: validateString_valid)
  then show "createNamedPipe sh pipeName modeOpt
          = ([], Inl (ValidationError (''Invalid pipe name: ''
                @ join '', '' (errors (validateString pipeName ''pipe name'' 64)))))"
    by (simp add: createNamedPipe_def Let_def)
next
  assume a: "pipeName \<noteq> [] \<and> length pipeName \<le> 64 \<and> trim pipeName = pipeName
        \<and> octalMode (orDefault modeOpt ''0666'')"
  then have v: "valid (validateString pipeName ''pipe name'' 64)"
    by (simp add: validateString_valid)
  have t: "sanitized (validateString pipeName ''pipe name'' 64) = pipeName"
    using a by (simp add: validateString_sanitized)
  show "createNamedPipe sh pipeName modeOpt
          = ([''mkfifo -m '' @ orDefault modeOpt ''0666'' @ '' '' @ dquote
                @ ''/tmp/zellij-pipe-'' @ pipeName @ dquote],
             case execAsync (sh (''mkfifo -m '' @ orDefault modeOpt ''0666'' @ '' '' @ dquote
                                   @ ''/tmp/zellij-pipe-'' @ pipeName @ dquote)) of
               Inl e \<Rightarrow> Inl (ValidationError (''Failed to create named pipe: '' @ errorMessage e))
             | Inr (out, err) \<Rightarrow>
                 Inr (NamedPipeCreated (''/tmp/zellij-pipe-'' @ pipeName)
                        (orDefault modeOpt ''0666'') out))"
    using a v t by (simp add: createNamedPipe_def Let_def split: sum.splits)
qed

text \<open>
  The theorem at a name with a double quote, a semicolon, spaces and a dollar sign, none
  of which a watch path may hold, with a shell that answers only the command below: the
  name is accepted, the shell is given a command in which the quote of the name closes
  the quoted path, and the pipe is reported created. The empty name is rejected.
\<close>

theorem createNamedPipe_interpolates_unchecked_name_witness:
  "invalidPath (''/tmp/zellij-pipe-'' @ ''x'' @ dquote @ ''; touch /tmp/y $HOME #'')
   \<and> list_ex (\<lambda>c. \<not> pathChar c) (''x'' @ dquote @ ''; touch /tmp/y $HOME #'')
   \<and> createNamedPipe
        (answersOnly (''mkfifo -m 0666 '' @ dquote @ ''/tmp/zellij-pipe-x'' @ dquote
                        @ ''; touch /tmp/y $HOME #'' @ dquote) (Exited ''created'' []))
        (''x'' @ dquote @ ''; touch /tmp/y $HOME #'') None
       = ([''mkfifo -m 0666 '' @ dquote @ ''/tmp/zellij-pipe-x'' @ dquote
             @ ''; touch /tmp/y $HOME #'' @ dquote],
          Inr (NamedPipeCreated (''/tmp/zellij-pipe-x'' @ dquote @ ''; touch /tmp/y $HOME #'')
                 ''0666'' ''created''))
   \<and> createNamedPipe (\<lambda>c. Exited ''created'' []) [] None
       = ([], Inl (ValidationError
                ''Invalid pipe name: pipe name is required and must be a string''))
   \<and> \<not> valid (validateString [] ''pipe name'' 64)"
proof -
  let ?n = "''x'' @ dquote @ ''; touch /tmp/y $HOME #''"
  let ?cmd = "''mkfifo -m 0666 '' @ dquote @ ''/tmp/zellij-pipe-x'' @ dquote
                @ ''; touch /tmp/y $HOME #'' @ dquote"
  let ?sh = "answersOnly ?cmd (Exited ''created'' [])"
  have h: "?n \<noteq> [] \<and> length ?n \<le> 64 \<and> trim ?n = ?n \<and> octalMode (orDefault None ''0666'')"
    by (simp add: dquote_def trim_def isWhiteSpace_def octalMode_def octalDigit_def orDefault_def)
  have u: "invalidPath (''/tmp/zellij-pipe-'' @ ?n)" "list_ex (\<lambda>c. \<not> pathChar c) ?n"
    by (simp_all add: invalidPath_def matchPathRegex_def pathChar_def wordChar_def dquote_def)
  have c: "''mkfifo -m '' @ orDefault None ''0666'' @ '' '' @ dquote
             @ ''/tmp/zellij-pipe-'' @ ?n @ dquote = ?cmd"
    by (simp add: orDefault_def)
  have e: "execAsync (?sh ?cmd) = Inr (''created'', [])"
    by (simp add: answersOnly_def execAsync_def trim_def isWhiteSpace_def)
  from createNamedPipe_interpolates_unchecked_name[of ?sh ?n None] h
  have "createNamedPipe ?sh ?n None
          = ([''mkfifo -m '' @ orDefault None ''0666'' @ '' '' @ dquote
                @ ''/tmp/zellij-pipe-'' @ ?n @ dquote],
             case execAsync (?sh (''mkfifo -m '' @ orDefault None ''0666'' @ '' '' @ dquote
                                   @ ''/tmp/zellij-pipe-'' @ ?n @ dquote)) of
               Inl e \<Rightarrow> Inl (ValidationError (''Failed to create named pipe: '' @ errorMessage e))
             | Inr (out, err) \<Rightarrow>
                 Inr (NamedPipeCreated (''/tmp/zellij-pipe-'' @ ?n)
                        (orDefault None ''0666'') out))"
    by blast
  then have r: "createNamedPipe ?sh ?n None
       = ([?cmd], Inr (NamedPipeCreated (''/tmp/zellij-pipe-x'' @ dquote @ ''; touch /tmp/y $HOME #'')
                 ''0666'' ''created''))"
    unfolding c e by (simp add: orDefault_def)
  note t = createNamedPipe_interpolates_unchecked_name[of "\<lambda>c. Exited ''created'' []" "[]" None]
  have z: "([]::string) = [] \<or> length ([]::string) > 64" by simp
  have j: "join '', '' (errors (validateString [] ''pipe name'' 64))
            = ''pipe name is required and must be a string''"
    by (simp add: validateString_def)
  from t[THEN conjunct2, THEN conjunct1, THEN mp, OF z]
  have r0: "createNamedPipe (\<lambda>c. Exited ''created'' []) [] None
       = ([], Inl (ValidationError
                ''Invalid pipe name: pipe name is required and must be a string''))"
    unfolding j by simp
  then have "\<exists>m. createNamedPipe (\<lambda>c. Exited ''created'' []) [] None
           = ([], Inl (ValidationError (''Invalid pipe name: '' @ m)))"
    by simp
  with t[THEN conjunct1] have nv: "\<not> valid (validateString [] ''pipe name'' 64)"
    by (rule iffD1)
  note r0 nv
  with u r show ?thesis by simp
qed

section \<open>C10: an identifier given as a string\<close>

lemma decimal_digit_radix: "decimalDigit c \<Longrightarrow> radixDigit 10 c"
  unfolding decimalDigit_def
  by (simp, elim disjE) (simp_all add: radixDigit_def digitValue_def)

lemma decimal_digit_plain:
  "decimalDigit c \<Longrightarrow> \<not> isWhiteSpace c \<and> c \<noteq> CHR ''+'' \<and> c \<noteq> CHR ''-''"
  unfolding decimalDigit_def
  by (simp, elim disjE) (simp_all add: isWhiteSpace_def)

lemma parseInt_unsigned:
  assumes "\<not> isWhiteSpace d" and "d \<noteq> CHR ''+''" and "d \<noteq> CHR ''-''" and "d \<noteq> CHR ''0''"
  shows "parseInt (d # xs) =
     (if takeWhile (radixDigit 10) (d # xs) = [] then NaN
      else Finite (real (digitsValue 10 (takeWhile (radixDigit 10) (d # xs)))))"
  using assms by (simp add: parseInt_def Let_def)

lemma parseInt_decimal_prefix:
  assumes "list_all decimalDigit (d # ds)" and "d \<noteq> CHR ''0''"
    and "\<not> radixDigit 10 c"
  shows "parseInt (d # ds @ c # rest) = Finite (real (digitsValue 10 (d # ds)))"
proof -
  have d: "decimalDigit d" and ds: "\<forall>x \<in> set ds. radixDigit 10 x"
    using assms(1) by (auto simp: list_all_iff decimal_digit_radix)
  have t1: "takeWhile (radixDigit 10) (d # ds @ c # rest) = d # ds"
    using decimal_digit_radix[OF d] ds assms(3) by (simp add: takeWhile_append2[of ds])
  have "parseInt (d # (ds @ c # rest)) =
     (if takeWhile (radixDigit 10) (d # (ds @ c # rest)) = [] then NaN
      else Finite (real (digitsValue 10 (takeWhile (radixDigit 10) (d # (ds @ c # rest))))))"
    using decimal_digit_plain[OF d] assms(2) by (intro parseInt_unsigned) simp_all
  then show ?thesis
    unfolding t1 by simp
qed


lemma foldl_digits_ge:
  "acc \<le> foldl (\<lambda>acc c. acc * R + (case digitValue c of None \<Rightarrow> 0 | Some v \<Rightarrow> v)) acc ds"
  if "0 < R" for R :: nat
proof (induction ds arbitrary: acc)
  case Nil
  then show ?case by simp
next
  case (Cons x xs)
  have "acc \<le> acc * R + (case digitValue x of None \<Rightarrow> 0 | Some v \<Rightarrow> v)"
    using that by (cases R) simp_all
  also have "\<dots> \<le> foldl (\<lambda>acc c. acc * R + (case digitValue c of None \<Rightarrow> 0 | Some v \<Rightarrow> v))
      (acc * R + (case digitValue x of None \<Rightarrow> 0 | Some v \<Rightarrow> v)) xs"
    by (rule Cons.IH)
  finally show ?case by simp
qed

lemma decimal_digit_value:
  "decimalDigit d \<Longrightarrow> d \<noteq> CHR ''0'' \<Longrightarrow> \<exists>v. digitValue d = Some v \<and> 0 < v"
  unfolding decimalDigit_def
  by (simp, elim disjE) (simp_all add: digitValue_def)

lemma digitsValue_positive:
  assumes "decimalDigit d" and "d \<noteq> CHR ''0''"
  shows "0 < digitsValue 10 (d # ds)"
proof -
  obtain v where v: "digitValue d = Some v" "0 < v"
    using decimal_digit_value[OF assms] by blast
  have "v \<le> foldl (\<lambda>acc c. acc * 10 + (case digitValue c of None \<Rightarrow> 0 | Some v \<Rightarrow> v)) v ds"
    by (rule foldl_digits_ge) simp
  then show ?thesis using v by (simp add: digitsValue_def)
qed

text \<open>
  C10. A string that starts with decimal digits, the first of them not \<open>0\<close>, and goes
  on with a character that is no decimal digit is read as the number its digits denote,
  and the rest of the string is ignored. The query is not rejected as invalid input
  unless that number is above 4194304: with an interval hint within bounds the process
  of that number, and no other, is probed, and the result is the response for it (its
  status, or not found).
\<close>

theorem pollProcess_reads_numeric_prefix:
  assumes "list_all decimalDigit (d # ds)" and "d \<noteq> CHR ''0''"
    and "\<not> radixDigit 10 c"
  shows "parseInt (d # ds @ c # rest) = Finite (real (digitsValue 10 (d # ds)))
    \<and> pollProcess ps (PidString (d # ds @ c # rest)) iv
        = (if 4194304 < digitsValue 10 (d # ds)
           then ([], Inl (ValidationError ''Invalid PID: must be a positive integer''))
           else if js_lt (orDefault iv (Finite 1000)) 100 \<or> js_gt (orDefault iv (Finite 1000)) 10000
           then ([], Inl (ValidationError ''Interval must be between 100ms and 10000ms''))
           else ([Finite (real (digitsValue 10 (d # ds)))],
                 case execAsync (ps (Finite (real (digitsValue 10 (d # ds))))) of
                   Inl e \<Rightarrow> Inr (ProcessNotFoundOrError (Finite (real (digitsValue 10 (d # ds))))
                                (errorMessage e))
                 | Inr (out, err) \<Rightarrow>
                     if trim out \<noteq> []
                     then Inr (ProcessStatus (Finite (real (digitsValue 10 (d # ds))))
                            [field (splitWs [] (trim out)) 0, field (splitWs [] (trim out)) 1,
                             field (splitWs [] (trim out)) 2, field (splitWs [] (trim out)) 3])
                     else Inr (ProcessNotFound (Finite (real (digitsValue 10 (d # ds)))))))"
proof -
  let ?n = "digitsValue 10 (d # ds)"
  have p: "parseInt (d # ds @ c # rest) = Finite (real ?n)"
    by (rule parseInt_decimal_prefix[OF assms(1,2,3)])
  have "decimalDigit d" using assms(1) by simp
  then have pos: "0 < ?n" using assms(2) by (rule digitsValue_positive)
  have ok: "\<not> isNaN (Finite (real ?n))" "\<not> js_le (Finite (real ?n)) 0"
    "js_gt (Finite (real ?n)) 4194304 \<longleftrightarrow> 4194304 < ?n"
    using pos by simp_all
  show ?thesis
    using p ok
    by (simp add: pollProcess_def Let_def split: sum.splits)
qed

text \<open>
  The theorem at \<open>"123abc"\<close>, with a probe that answers only for process 123: the
  string is not rejected, process 123 is probed and its status is returned.
\<close>

theorem pollProcess_reads_numeric_prefix_witness:
  "parseInt ''123abc'' = Finite 123
   \<and> pollProcess (answersOnly (Finite 123) (Exited ''123 1 S bash'' [])) (PidString ''123abc'') None
       = ([Finite 123], Inr (ProcessStatus (Finite 123) [''123'', ''1'', ''S'', ''bash'']))"
proof -
  let ?ps = "answersOnly (Finite 123) (Exited ''123 1 S bash'' [])"
  have h: "list_all decimalDigit ''123''" "CHR ''1'' \<noteq> CHR ''0''"
    "\<not> radixDigit 10 CHR ''a''"
    by (simp_all add: radixDigit_def digitValue_def decimalDigit_def)
  have v: "digitsValue 10 ''123'' = 123" by (simp add: digitsValue_def digitValue_def)
  have e: "execAsync (?ps (Finite 123)) = Inr (''123 1 S bash'', [])"
    by (simp add: answersOnly_def execAsync_def trim_def isWhiteSpace_def)
  have f: "trim ''123 1 S bash'' = ''123 1 S bash''"
    "splitWs [] ''123 1 S bash'' = [''123'', ''1'', ''S'', ''bash'']"
    by (simp_all add: trim_def isWhiteSpace_def)
  from pollProcess_reads_numeric_prefix[OF h, of "''bc''" ?ps None]
  have "parseInt ''123abc'' = Finite 123"
    and "pollProcess ?ps (PidString ''123abc'') None
          = ([Finite 123], Inr (ProcessStatus (Finite 123) [''123'', ''1'', ''S'', ''bash'']))"
    unfolding v by (simp_all add: e f field_def isWhiteSpace_def orDefault_def)
  then show ?thesis by simp
qed

end
